theory Spec2Isabelle
  imports Complex_Main "HOL-Library.Sublist"
begin

section \<open>Python values\<close>

text \<open>
  Configuration and wire messages are JSON documents: pipeline node and edge
  configurations, filter, transformer and policy parameters, and inbound WebSocket
  messages. The code only reads them, so they are modelled as trees. A dictionary is an
  association list in insertion order.
\<close>

datatype json = JNull | JBool bool | JInt int | JFloat real | JStr string
  | JList "json list" | JDict "(string \<times> json) list"

text \<open>The exceptions the modelled code can raise, by class.\<close>

datatype exn = ValueError | TypeError | AttributeError | KeyError | IndexError | ReError
  | RecursionError | OtherError

text \<open>\<^verbatim>\<open>d.get(key, default)\<close> on a dictionary.\<close>

definition jget :: "(string \<times> json) list \<Rightarrow> string \<Rightarrow> json \<Rightarrow> json" where
  "jget d k dflt = (case map_of d k of None \<Rightarrow> dflt | Some v \<Rightarrow> v)"

text \<open>Python's truth value of a JSON value.\<close>

fun json_truthy :: "json \<Rightarrow> bool" where
  "json_truthy JNull = False"
| "json_truthy (JBool b) = b"
| "json_truthy (JInt i) = (i \<noteq> 0)"
| "json_truthy (JFloat x) = (x \<noteq> 0)"
| "json_truthy (JStr s) = (s \<noteq> [])"
| "json_truthy (JList xs) = (xs \<noteq> [])"
| "json_truthy (JDict d) = (d \<noteq> [])"

text \<open>Lists and dictionaries are unhashable: using one as a dictionary key raises.\<close>

fun hashable :: "json \<Rightarrow> bool" where
  "hashable (JList xs) = False"
| "hashable (JDict d) = False"
| "hashable v = True"

section \<open>Payloads: values in a store\<close>

text \<open>
  Event payloads are Python dictionaries that the executor copies (shallowly) and
  passes along the branches of a pipeline, so what is shared between two payloads
  matters. A payload value is therefore a scalar or a reference into a store of
  dictionary and list objects; the store is a list and an address is an index into it.
  Nothing is ever freed.
\<close>

type_synonym addr = nat

datatype pyval = PNone | PBool bool | PInt int | PFloat real | PStr string | PRef addr

datatype pyobj = ODict "(string \<times> pyval) list" | OList "pyval list"

type_synonym heap = "pyobj list"

definition heap_get :: "heap \<Rightarrow> addr \<Rightarrow> pyobj option" where
  "heap_get h a = (if a < length h then Some (h ! a) else None)"

text \<open>A new object gets the next address.\<close>

definition alloc :: "pyobj \<Rightarrow> heap \<Rightarrow> addr \<times> heap" where
  "alloc ob h = (length h, h @ [ob])"

text \<open>\<^verbatim>\<open>isinstance(v, dict)\<close>, with the dictionary's items when it holds.\<close>

definition as_dict :: "heap \<Rightarrow> pyval \<Rightarrow> (string \<times> pyval) list option" where
  "as_dict h v =
     (case v of
        PRef a \<Rightarrow> (case heap_get h a of Some (ODict d) \<Rightarrow> Some d | _ \<Rightarrow> None)
      | _ \<Rightarrow> None)"

definition as_list :: "heap \<Rightarrow> pyval \<Rightarrow> pyval list option" where
  "as_list h v =
     (case v of
        PRef a \<Rightarrow> (case heap_get h a of Some (OList xs) \<Rightarrow> Some xs | _ \<Rightarrow> None)
      | _ \<Rightarrow> None)"

text \<open>\<^verbatim>\<open>d.get(key)\<close> and \<^verbatim>\<open>d[key] = v\<close> on the items of a dictionary.\<close>

definition dict_get :: "(string \<times> pyval) list \<Rightarrow> string \<Rightarrow> pyval" where
  "dict_get d k = (case map_of d k of None \<Rightarrow> PNone | Some v \<Rightarrow> v)"

fun dict_set :: "('k \<times> 'v) list \<Rightarrow> 'k \<Rightarrow> 'v \<Rightarrow> ('k \<times> 'v) list" where
  "dict_set [] k v = [(k, v)]"
| "dict_set ((k', v') # d) k v = (if k' = k then (k, v) # d else (k', v') # dict_set d k v)"

text \<open>Python's truth value of a payload value.\<close>

definition val_truthy :: "heap \<Rightarrow> pyval \<Rightarrow> bool" where
  "val_truthy h v =
     (case v of
        PNone \<Rightarrow> False
      | PBool b \<Rightarrow> b
      | PInt i \<Rightarrow> i \<noteq> 0
      | PFloat x \<Rightarrow> x \<noteq> 0
      | PStr s \<Rightarrow> s \<noteq> []
      | PRef a \<Rightarrow> (case heap_get h a of
                     Some (ODict d) \<Rightarrow> d \<noteq> []
                   | Some (OList xs) \<Rightarrow> xs \<noteq> []
                   | None \<Rightarrow> True))"

text \<open>Sequencing of computations that may raise, and \<^verbatim>\<open>try ... except Exception\<close>.\<close>

definition ebind :: "exn + 'a \<Rightarrow> ('a \<Rightarrow> exn + 'b) \<Rightarrow> exn + 'b" where
  "ebind m f = (case m of Inl e \<Rightarrow> Inl e | Inr x \<Rightarrow> f x)"

definition try_except :: "exn + 'a \<Rightarrow> 'a \<Rightarrow> exn + 'a" where
  "try_except body dflt = (case body of Inl e \<Rightarrow> Inr dflt | Inr x \<Rightarrow> Inr x)"

text \<open>
  The built-ins and standard-library functions the pipeline code calls on values:
  \<^verbatim>\<open>==\<close>, \<^verbatim>\<open>float\<close>, \<^verbatim>\<open>str\<close>, \<^verbatim>\<open>int\<close>, the regular-expression functions, and
  \<^verbatim>\<open>datetime.isoformat\<close> with \<^verbatim>\<open>datetime.fromisoformat\<close> (a \<^verbatim>\<open>datetime\<close> is modelled as a
  real number of seconds). \<^verbatim>\<open>re_findall_braces\<close> is \<^verbatim>\<open>re.findall\<close> with the placeholder
  pattern of the format transformer, \<^verbatim>\<open>re_match_index\<close> is \<^verbatim>\<open>re.match\<close> with the
  index pattern of the JSON-path transformer (its three groups, the first one empty when
  it did not take part), \<^verbatim>\<open>py_replace\<close> is \<^verbatim>\<open>str.replace\<close>, \<^verbatim>\<open>float_power\<close> and
  \<^verbatim>\<open>float_round\<close> are \<^verbatim>\<open>**\<close> and \<^verbatim>\<open>round\<close> on floats, and \<^verbatim>\<open>recursion_limit\<close> is the
  interpreter's bound on nested calls. They are
  parameters of the model; each takes a payload value (with the store) or a configuration
  value. \<^verbatim>\<open>py_eq\<close> compares a payload value with a configuration value.
\<close>

record pylib =
  py_eq :: "heap \<Rightarrow> pyval \<Rightarrow> json \<Rightarrow> bool"
  py_float :: "heap \<Rightarrow> pyval \<Rightarrow> exn + real"
  py_float_cfg :: "json \<Rightarrow> exn + real"
  py_str :: "heap \<Rightarrow> pyval \<Rightarrow> string"
  py_str_cfg :: "json \<Rightarrow> string"
  py_int :: "string \<Rightarrow> exn + int"
  re_match :: "string \<Rightarrow> string \<Rightarrow> exn + bool"
  re_findall_braces :: "string \<Rightarrow> string list"
  re_match_index :: "string \<Rightarrow> (string \<times> nat \<times> string) option"
  float_power :: "real \<Rightarrow> real \<Rightarrow> exn + real"
  float_round :: "real \<Rightarrow> real \<Rightarrow> exn + pyval"
  py_replace :: "string \<Rightarrow> string \<Rightarrow> string \<Rightarrow> string"
  recursion_limit :: nat
  isoformat :: "real \<Rightarrow> string"
  fromisoformat :: "string \<Rightarrow> exn + real"

text \<open>\<^verbatim>\<open>s.split(sep)\<close> for a one-character separator.\<close>

fun split_on :: "char \<Rightarrow> string \<Rightarrow> string list" where
  "split_on c [] = [[]]"
| "split_on c (x # xs) =
     (if x = c then [] # split_on c xs
      else (case split_on c xs of [] \<Rightarrow> [[x]] | w # ws \<Rightarrow> (x # w) # ws))"

section \<open>Signal sources: the threshold machine (signals/base.py)\<close>

text \<open>
  \<^verbatim>\<open>ThresholdMixin\<close> keeps two dictionaries: \<^verbatim>\<open>_thresholds\<close> (name to the pair
  low, high) and \<^verbatim>\<open>_threshold_states\<close> (name to one of the strings "normal", "low",
  "high"). Samples are Python floats; they are modelled as reals, which is exact for the
  comparisons \<^verbatim>\<open><=\<close> and \<^verbatim>\<open>>=\<close> on finite floats.
\<close>

record threshold_mixin =
  thresholds :: "string \<rightharpoonup> (real \<times> real)"
  threshold_states :: "string \<rightharpoonup> string"

definition threshold_mixin_init :: threshold_mixin where
  "threshold_mixin_init = \<lparr>thresholds = Map.empty, threshold_states = Map.empty\<rparr>"

definition set_threshold :: "string \<Rightarrow> real \<Rightarrow> real \<Rightarrow> threshold_mixin \<Rightarrow> threshold_mixin" where
  "set_threshold name low high m =
     m\<lparr>thresholds := (thresholds m)(name \<mapsto> (low, high)),
       threshold_states := (threshold_states m)(name \<mapsto> ''normal'')\<rparr>"

text \<open>\<^verbatim>\<open>self._threshold_states.get(name, "normal")\<close>\<close>

definition current_state :: "threshold_mixin \<Rightarrow> string \<Rightarrow> string" where
  "current_state m name = (case threshold_states m name of None \<Rightarrow> ''normal'' | Some s \<Rightarrow> s)"

text \<open>The zone of a sample: the \<^verbatim>\<open>if value <= low ... elif value >= high\<close> chain.\<close>

definition new_state :: "real \<Rightarrow> real \<Rightarrow> real \<Rightarrow> string" where
  "new_state low high v = (if v \<le> low then ''low'' else if v \<ge> high then ''high'' else ''normal'')"

text \<open>
  \<^verbatim>\<open>check_threshold\<close> returns the new zone when it differs from the stored one (and
  stores it), and \<^verbatim>\<open>None\<close> otherwise; an untracked name returns \<^verbatim>\<open>None\<close> at once.
\<close>

definition check_threshold :: "string \<Rightarrow> real \<Rightarrow> threshold_mixin \<Rightarrow> string option \<times> threshold_mixin" where
  "check_threshold name v m =
     (case thresholds m name of
        None \<Rightarrow> (None, m)
      | Some (low, high) \<Rightarrow>
          (let cur = current_state m name; new = new_state low high v
           in if new \<noteq> cur
              then (Some new, m\<lparr>threshold_states := (threshold_states m)(name \<mapsto> new)\<rparr>)
              else (None, m)))"

section \<open>The cpu/ram source (signals/cpu.py)\<close>

datatype EventType = VALUE_CHANGED | THRESHOLD_CROSSED | STATE_CHANGED | DETECTED
  | CREATED | MODIFIED | DELETED | MOVED











section \<open>Execution policies: rate limit (pipeline/policies.py)\<close>

text \<open>
  \<^verbatim>\<open>RateLimitPolicy\<close>. Values of \<^verbatim>\<open>datetime.utcnow()\<close> are modelled as real numbers of
  seconds and \<^verbatim>\<open>timedelta(seconds=window_seconds)\<close> as \<^verbatim>\<open>window_seconds\<close>. The
  \<^verbatim>\<open>defaultdict(list)\<close> of execution times is a total function whose value is the empty
  list at every key that was never written. The clock reading is an explicit argument of
  each method.
\<close>

record rate_limit_policy =
  max_executions :: int
  window_seconds :: real
  execution_times :: "string \<Rightarrow> real list"

definition rate_limit_init :: "int \<Rightarrow> real \<Rightarrow> rate_limit_policy" where
  "rate_limit_init n w = \<lparr>max_executions = n, window_seconds = w, execution_times = (\<lambda>_. [])\<rparr>"

definition rl_should_execute :: "real \<Rightarrow> string \<Rightarrow> rate_limit_policy \<Rightarrow> bool \<times> rate_limit_policy" where
  "rl_should_execute now action_id p =
     (let window_start = now - window_seconds p;
          kept = filter (\<lambda>t. t > window_start) (execution_times p action_id);
          p' = p\<lparr>execution_times := (execution_times p)(action_id := kept)\<rparr>
      in if int (length kept) \<ge> max_executions p then (False, p') else (True, p'))"

definition rl_on_execute :: "real \<Rightarrow> string \<Rightarrow> rate_limit_policy \<Rightarrow> rate_limit_policy" where
  "rl_on_execute now action_id p =
     p\<lparr>execution_times := (execution_times p)(action_id := execution_times p action_id @ [now])\<rparr>"

text \<open>
  The calls the executor makes on one key, one attempt after the other
  (\<^verbatim>\<open>_process_pipeline\<close>, the action branch): \<^verbatim>\<open>should_execute\<close> at clock reading
  \<open>a\<close>; when it admits, the action runs and \<^verbatim>\<open>on_execute\<close> follows at clock reading
  \<open>r\<close>. The result lists the decisions.
\<close>

fun rl_run :: "(real \<times> real) list \<Rightarrow> string \<Rightarrow> rate_limit_policy \<Rightarrow> bool list \<times> rate_limit_policy" where
  "rl_run [] k p = ([], p)"
| "rl_run ((a, r) # rest) k p =
     (let (ok, p1) = rl_should_execute a k p;
          p2 = (if ok then rl_on_execute r k p1 else p1);
          (oks, p3) = rl_run rest k p2
      in (ok # oks, p3))"



text \<open>The attempts that were admitted, and membership in a half-open window.\<close>

definition rl_admitted :: "(real \<times> real) list \<Rightarrow> string \<Rightarrow> rate_limit_policy \<Rightarrow> (real \<times> real) list" where
  "rl_admitted atts k p = map fst (filter snd (zip atts (fst (rl_run atts k p))))"


section \<open>The WebSocket hub (websocket/handler.py)\<close>

text \<open>
  Outbound frames. The timestamp fields of the welcome and pong frames are left out; the
  error frame carries the exception whose text is its message.
\<close>

datatype frame = Welcome string | Subscribed json | Unsubscribed json | Pong | ErrorFrame exn

text \<open>
  A client socket: the frames sent on it so far, and whether \<^verbatim>\<open>send_json\<close> raises on it
  (a transport that has failed).
\<close>

record websocket =
  outbox :: "frame list"
  send_fails :: bool

text \<open>
  \<^verbatim>\<open>ConnectionManager\<close>: the connection map and the channel table. Channels are the
  values of the message's \<^verbatim>\<open>channel\<close> field, used as dictionary keys.
\<close>

record connection_manager =
  active_connections :: "string \<rightharpoonup> websocket"
  subscriptions :: "json \<rightharpoonup> string set"

definition connection_manager_init :: connection_manager where
  "connection_manager_init = \<lparr>active_connections = Map.empty, subscriptions = Map.empty\<rparr>"

definition connect :: "string \<Rightarrow> connection_manager \<Rightarrow> connection_manager" where
  "connect client_id m =
     m\<lparr>active_connections := (active_connections m)(client_id \<mapsto> \<lparr>outbox = [], send_fails = False\<rparr>)\<rparr>"

text \<open>
  \<^verbatim>\<open>disconnect\<close> removes the socket, discards the client from every channel and deletes
  the channels left empty.
\<close>

definition disconnect :: "string \<Rightarrow> connection_manager \<Rightarrow> connection_manager" where
  "disconnect client_id m =
     m\<lparr>active_connections := (active_connections m)(client_id := None),
       subscriptions := (\<lambda>ch. case subscriptions m ch of
                                  None \<Rightarrow> None
                                | Some cs \<Rightarrow> if cs - {client_id} = {} then None else Some (cs - {client_id}))\<rparr>"

definition subscribe :: "string \<Rightarrow> json \<Rightarrow> connection_manager \<Rightarrow> connection_manager" where
  "subscribe client_id channel m =
     m\<lparr>subscriptions := (subscriptions m)(channel \<mapsto>
         insert client_id (case subscriptions m channel of None \<Rightarrow> {} | Some cs \<Rightarrow> cs))\<rparr>"

definition unsubscribe :: "string \<Rightarrow> json \<Rightarrow> connection_manager \<Rightarrow> connection_manager" where
  "unsubscribe client_id channel m =
     (case subscriptions m channel of
        None \<Rightarrow> m
      | Some cs \<Rightarrow> m\<lparr>subscriptions := (subscriptions m)(channel \<mapsto> cs - {client_id})\<rparr>)"

text \<open>
  \<^verbatim>\<open>send_personal\<close>: a send that raises disconnects the client and returns
  \<^verbatim>\<open>False\<close>; so does an unknown client (without any effect).
\<close>

definition send_personal :: "string \<Rightarrow> frame \<Rightarrow> connection_manager \<Rightarrow> bool \<times> connection_manager" where
  "send_personal client_id message m =
     (case active_connections m client_id of
        None \<Rightarrow> (False, m)
      | Some ws \<Rightarrow>
          if send_fails ws then (False, disconnect client_id m)
          else (True, m\<lparr>active_connections :=
                           (active_connections m)(client_id \<mapsto> ws\<lparr>outbox := outbox ws @ [message]\<rparr>)\<rparr>))"

text \<open>
  A message handler is a callable of the client id and the message; it returns the
  exception it raised, if any, with the manager as it left it.
\<close>

type_synonym handler = "string \<Rightarrow> (string \<times> json) list \<Rightarrow> connection_manager \<Rightarrow> exn option \<times> connection_manager"

text \<open>
  The built-in handlers. A channel that is a non-empty list or dictionary is truthy and
  unhashable: the table lookup in \<^verbatim>\<open>subscribe\<close> raises \<^verbatim>\<open>TypeError\<close>, and so does the
  one in \<^verbatim>\<open>unsubscribe\<close>.
\<close>

definition handle_subscribe :: handler where
  "handle_subscribe client_id data m =
     (let channel = jget data ''channel'' (JStr [])
      in if json_truthy channel
         then (if hashable channel
               then (None, snd (send_personal client_id (Subscribed channel) (subscribe client_id channel m)))
               else (Some TypeError, m))
         else (None, m))"

definition handle_unsubscribe :: handler where
  "handle_unsubscribe client_id data m =
     (let channel = jget data ''channel'' (JStr [])
      in if json_truthy channel
         then (if hashable channel
               then (None, snd (send_personal client_id (Unsubscribed channel) (unsubscribe client_id channel m)))
               else (Some TypeError, m))
         else (None, m))"

definition handle_ping :: handler where
  "handle_ping client_id data m = (None, snd (send_personal client_id Pong m))"

definition handle_pipeline_message :: handler where
  "handle_pipeline_message client_id data m = (None, m)"

text \<open>\<^verbatim>\<open>_setup_handlers\<close> and \<^verbatim>\<open>register_message_handler\<close>.\<close>

definition setup_handlers :: "string \<rightharpoonup> handler" where
  "setup_handlers =
     [''subscribe'' \<mapsto> handle_subscribe, ''unsubscribe'' \<mapsto> handle_unsubscribe,
      ''ping'' \<mapsto> handle_ping, ''pipeline'' \<mapsto> handle_pipeline_message]"

definition register_message_handler :: "string \<Rightarrow> handler \<Rightarrow> (string \<rightharpoonup> handler) \<Rightarrow> (string \<rightharpoonup> handler)" where
  "register_message_handler msg_type h hs = hs(msg_type \<mapsto> h)"

text \<open>
  \<^verbatim>\<open>self._message_handlers.get(msg_type)\<close>: the keys are strings, so any other hashable
  value finds nothing, and an unhashable one raises.
\<close>

definition lookup_handler :: "(string \<rightharpoonup> handler) \<Rightarrow> json \<Rightarrow> exn + handler option" where
  "lookup_handler hs msg_type =
     (case msg_type of
        JStr s \<Rightarrow> Inr (hs s)
      | JList xs \<Rightarrow> Inl TypeError
      | JDict d \<Rightarrow> Inl TypeError
      | _ \<Rightarrow> Inr None)"

text \<open>
  \<^verbatim>\<open>_process_message\<close>. A handler that raises is answered with an error frame; a type
  without a handler is logged and nothing else happens.
\<close>

definition process_message ::
  "(string \<rightharpoonup> handler) \<Rightarrow> string \<Rightarrow> (string \<times> json) list \<Rightarrow> connection_manager \<Rightarrow> exn + connection_manager" where
  "process_message hs client_id data m =
     (case lookup_handler hs (jget data ''type'' (JStr [])) of
        Inl e \<Rightarrow> Inl e
      | Inr None \<Rightarrow> Inr m
      | Inr (Some h) \<Rightarrow>
          (case h client_id data m of
             (None, m') \<Rightarrow> Inr m'
           | (Some e, m') \<Rightarrow> Inr (snd (send_personal client_id (ErrorFrame e) m'))))"

text \<open>
  One turn of the receive loop of \<^verbatim>\<open>handle_connection\<close>: an exception that escapes
  \<^verbatim>\<open>_process_message\<close> ends the loop and disconnects the client. The result tells whether
  the loop goes on.
\<close>

definition handle_inbound ::
  "(string \<rightharpoonup> handler) \<Rightarrow> string \<Rightarrow> (string \<times> json) list \<Rightarrow> connection_manager \<Rightarrow> bool \<times> connection_manager" where
  "handle_inbound hs client_id data m =
     (case process_message hs client_id data m of
        Inl e \<Rightarrow> (False, disconnect client_id m)
      | Inr m' \<Rightarrow> (True, m'))"

text \<open>The client's outbox, empty for a client that is not connected.\<close>

definition frames_of :: "connection_manager \<Rightarrow> string \<Rightarrow> frame list" where
  "frames_of m client_id = (case active_connections m client_id of None \<Rightarrow> [] | Some ws \<Rightarrow> outbox ws)"

text \<open>Whether a frame is an error frame.\<close>

fun is_error_frame :: "frame \<Rightarrow> bool" where
  "is_error_frame (ErrorFrame e) = True"
| "is_error_frame f = False"

section \<open>Filters (pipeline/filters.py)\<close>

text \<open>
  \<^verbatim>\<open>self.params = params or {}\<close> followed by the first \<^verbatim>\<open>self.params.get\<close>: a truthy
  value that is not a dictionary raises \<^verbatim>\<open>AttributeError\<close>, a falsy one is replaced by
  the empty dictionary.
\<close>

definition params_or_empty :: "json \<Rightarrow> exn + (string \<times> json) list" where
  "params_or_empty params =
     (case params of
        JDict d \<Rightarrow> Inr d
      | _ \<Rightarrow> if json_truthy params then Inl AttributeError else Inr [])"

record boolean_filter =
  bf_field :: json
  bf_operator :: json
  bf_value :: json

definition BooleanFilter_init :: "json \<Rightarrow> exn + boolean_filter" where
  "BooleanFilter_init params =
     ebind (params_or_empty params) (\<lambda>p.
       Inr \<lparr>bf_field = jget p ''field'' (JStr []),
            bf_operator = jget p ''operator'' (JStr ''equals''),
            bf_value = jget p ''value'' JNull\<rparr>)"

text \<open>The numeric comparisons coerce both sides with \<^verbatim>\<open>float\<close>, the left one first.\<close>

definition float_cmp ::
  "(real \<Rightarrow> real \<Rightarrow> bool) \<Rightarrow> pylib \<Rightarrow> heap \<Rightarrow> pyval \<Rightarrow> json \<Rightarrow> exn + bool" where
  "float_cmp rel L h a b =
     ebind (py_float L h a) (\<lambda>x. ebind (py_float_cfg L b) (\<lambda>y. Inr (rel x y)))"

text \<open>The table \<^verbatim>\<open>OPERATORS\<close>.\<close>

definition OPERATORS :: "(string \<times> (pylib \<Rightarrow> heap \<Rightarrow> pyval \<Rightarrow> json \<Rightarrow> exn + bool)) list" where
  "OPERATORS =
     [(''equals'', \<lambda>L h a b. Inr (py_eq L h a b)),
      (''=='', \<lambda>L h a b. Inr (py_eq L h a b)),
      (''not_equals'', \<lambda>L h a b. Inr (\<not> py_eq L h a b)),
      (''!='', \<lambda>L h a b. Inr (\<not> py_eq L h a b)),
      (''greater_than'', float_cmp (\<lambda>x y. x > y)),
      (''>'', float_cmp (\<lambda>x y. x > y)),
      (''less_than'', float_cmp (\<lambda>x y. x < y)),
      (''<'', float_cmp (\<lambda>x y. x < y)),
      (''greater_equal'', float_cmp (\<lambda>x y. x \<ge> y)),
      (''>='', float_cmp (\<lambda>x y. x \<ge> y)),
      (''less_equal'', float_cmp (\<lambda>x y. x \<le> y)),
      (''<='', float_cmp (\<lambda>x y. x \<le> y)),
      (''contains'', \<lambda>L h a b. Inr (sublist (py_str_cfg L b) (py_str L h a))),
      (''not_contains'', \<lambda>L h a b. Inr (\<not> sublist (py_str_cfg L b) (py_str L h a))),
      (''starts_with'', \<lambda>L h a b. Inr (prefix (py_str_cfg L b) (py_str L h a))),
      (''ends_with'', \<lambda>L h a b. Inr (suffix (py_str_cfg L b) (py_str L h a))),
      (''matches'', \<lambda>L h a b. re_match L (py_str_cfg L b) (py_str L h a)),
      (''is_true'', \<lambda>L h a b. Inr (val_truthy h a)),
      (''is_false'', \<lambda>L h a b. Inr (\<not> val_truthy h a)),
      (''is_null'', \<lambda>L h a b. Inr (a = PNone)),
      (''is_not_null'', \<lambda>L h a b. Inr (a \<noteq> PNone))]"

definition unary_ops :: "string list" where
  "unary_ops = [''is_null'', ''is_not_null'', ''is_true'', ''is_false'']"

text \<open>
  \<^verbatim>\<open>self.OPERATORS.get(self.operator)\<close>: the keys are strings; an unhashable operator
  raises, any other value that is not a key finds nothing.
\<close>

definition lookup_operator ::
  "json \<Rightarrow> exn + (string \<times> (pylib \<Rightarrow> heap \<Rightarrow> pyval \<Rightarrow> json \<Rightarrow> exn + bool)) option" where
  "lookup_operator operator =
     (case operator of
        JStr s \<Rightarrow> Inr (map_option (\<lambda>f. (s, f)) (map_of OPERATORS s))
      | JList xs \<Rightarrow> Inl TypeError
      | JDict d \<Rightarrow> Inl TypeError
      | _ \<Rightarrow> Inr None)"

text \<open>
  \<^verbatim>\<open>_resolve_path\<close>: the loop over the keys of the dotted path. A path that is not a
  string has no \<^verbatim>\<open>split\<close>.
\<close>

fun resolve_keys :: "heap \<Rightarrow> pyval \<Rightarrow> string list \<Rightarrow> pyval" where
  "resolve_keys h v [] = v"
| "resolve_keys h v (k # ks) =
     (case as_dict h v of None \<Rightarrow> PNone | Some d \<Rightarrow> resolve_keys h (dict_get d k) ks)"

definition resolve_path :: "heap \<Rightarrow> pyval \<Rightarrow> json \<Rightarrow> exn + pyval" where
  "resolve_path h data field_path =
     (case field_path of
        JStr s \<Rightarrow> Inr (resolve_keys h data (split_on CHR ''.'' s))
      | _ \<Rightarrow> Inl AttributeError)"

text \<open>
  \<^verbatim>\<open>"data" in data\<close>: key membership for a dictionary, element membership for a list,
  substring test for a string, \<^verbatim>\<open>TypeError\<close> for anything else.
\<close>

definition contains_data :: "heap \<Rightarrow> pyval \<Rightarrow> exn + bool" where
  "contains_data h data =
     (case data of
        PStr s \<Rightarrow> Inr (sublist ''data'' s)
      | PRef a \<Rightarrow> (case heap_get h a of
                     Some (ODict d) \<Rightarrow> Inr (map_of d ''data'' \<noteq> None)
                   | Some (OList xs) \<Rightarrow> Inr (PStr ''data'' \<in> set xs)
                   | None \<Rightarrow> Inl TypeError)
      | _ \<Rightarrow> Inl TypeError)"

text \<open>
  \<^verbatim>\<open>_get_nested_value\<close>: the path is looked up from the root and, when that gives
  \<^verbatim>\<open>None\<close> and the root has a dictionary under \<^verbatim>\<open>data\<close>, from there.
  \<^verbatim>\<open>data["data"]\<close> on a list or a string raises \<^verbatim>\<open>TypeError\<close>.
\<close>

definition get_nested_value :: "heap \<Rightarrow> pyval \<Rightarrow> json \<Rightarrow> exn + pyval" where
  "get_nested_value h data field_path =
     ebind (resolve_path h data field_path) (\<lambda>v.
       if v \<noteq> PNone then Inr v
       else ebind (contains_data h data) (\<lambda>has_data.
         if \<not> has_data then Inr v
         else (case as_dict h data of
                 None \<Rightarrow> Inl TypeError
               | Some d \<Rightarrow>
                   (case as_dict h (dict_get d ''data'') of
                      None \<Rightarrow> Inr v
                    | Some inner \<Rightarrow> resolve_path h (dict_get d ''data'') field_path))))"

text \<open>
  The body of \<^verbatim>\<open>BooleanFilter.evaluate\<close> inside its \<^verbatim>\<open>try\<close>, and the method with its
  \<^verbatim>\<open>except Exception: return False\<close>.
\<close>

definition boolean_filter_body :: "pylib \<Rightarrow> heap \<Rightarrow> boolean_filter \<Rightarrow> pyval \<Rightarrow> exn + bool" where
  "boolean_filter_body L h f event_data =
     ebind (get_nested_value h event_data (bf_field f)) (\<lambda>field_value.
       ebind (lookup_operator (bf_operator f)) (\<lambda>found.
         case found of
           None \<Rightarrow> Inr False
         | Some (name, op_func) \<Rightarrow>
             if name \<notin> set unary_ops \<and> bf_value f = JNull then Inr False
             else if name \<notin> set unary_ops \<and> field_value = PNone then Inr False
             else op_func L h field_value (bf_value f)))"

definition BooleanFilter_evaluate :: "pylib \<Rightarrow> heap \<Rightarrow> boolean_filter \<Rightarrow> pyval \<Rightarrow> exn + bool" where
  "BooleanFilter_evaluate L h f event_data = try_except (boolean_filter_body L h f event_data) False"

text \<open>
  A small instance of the library for running the model on examples: it knows scalars
  only, parses no strings and matches no patterns.
\<close>

definition sample_lib :: pylib where
  "sample_lib =
     \<lparr>py_eq = (\<lambda>h a b. case (a, b) of
                  (PNone, JNull) \<Rightarrow> True
                | (PBool x, JBool y) \<Rightarrow> x = y
                | (PInt x, JInt y) \<Rightarrow> x = y
                | (PFloat x, JFloat y) \<Rightarrow> x = y
                | (PInt x, JFloat y) \<Rightarrow> of_int x = y
                | (PFloat x, JInt y) \<Rightarrow> x = of_int y
                | (PStr x, JStr y) \<Rightarrow> x = y
                | _ \<Rightarrow> False),
      py_float = (\<lambda>h a. case a of
                  PInt x \<Rightarrow> Inr (of_int x)
                | PFloat x \<Rightarrow> Inr x
                | PBool x \<Rightarrow> Inr (if x then 1 else 0)
                | PStr s \<Rightarrow> Inl ValueError
                | _ \<Rightarrow> Inl TypeError),
      py_float_cfg = (\<lambda>b. case b of
                  JInt x \<Rightarrow> Inr (of_int x)
                | JFloat x \<Rightarrow> Inr x
                | JBool x \<Rightarrow> Inr (if x then 1 else 0)
                | JStr s \<Rightarrow> Inl ValueError
                | _ \<Rightarrow> Inl TypeError),
      py_str = (\<lambda>h a. case a of PStr s \<Rightarrow> s | PNone \<Rightarrow> ''None'' | _ \<Rightarrow> ''?''),
      py_str_cfg = (\<lambda>b. case b of JStr s \<Rightarrow> s | JNull \<Rightarrow> ''None'' | _ \<Rightarrow> ''?''),
      py_int = (\<lambda>s. Inl ValueError),
      re_match = (\<lambda>p s. Inl ReError),
      re_findall_braces = (\<lambda>s. []),
      re_match_index = (\<lambda>s. None),
      float_power = (\<lambda>x y. Inl OtherError),
      float_round = (\<lambda>x y. Inl OtherError),
      py_replace = (\<lambda>s old new. s),
      recursion_limit = 1000,
      isoformat = (\<lambda>t. if t = 0 then ''1970-01-01T00:00:00'' else ''2026-01-01T00:00:00''),
      fromisoformat = (\<lambda>s. if s = ''1970-01-01T00:00:00'' then Inr 0 else Inl ValueError)\<rparr>"

text \<open>
  \<^verbatim>\<open>TimeWindowFilter\<close>. The local clock reading of \<^verbatim>\<open>datetime.now()\<close> is the time of
  day in seconds and the weekday (0 is Monday).
\<close>

record time_window_filter =
  tw_start_time :: json
  tw_end_time :: json
  tw_days_of_week :: json
  tw_timezone :: json

definition TimeWindowFilter_init :: "json \<Rightarrow> exn + time_window_filter" where
  "TimeWindowFilter_init params =
     ebind (params_or_empty params) (\<lambda>p.
       Inr \<lparr>tw_start_time = jget p ''start_time'' JNull,
            tw_end_time = jget p ''end_time'' JNull,
            tw_days_of_week = jget p ''days_of_week'' JNull,
            tw_timezone = jget p ''timezone'' (JStr ''local'')\<rparr>)"

text \<open>\<^verbatim>\<open>current_day not in self.days_of_week\<close>, for an integer on the left.\<close>

definition json_eq_int :: "json \<Rightarrow> int \<Rightarrow> bool" where
  "json_eq_int v x =
     (case v of
        JInt i \<Rightarrow> i = x
      | JFloat r \<Rightarrow> r = of_int x
      | JBool b \<Rightarrow> (if b then 1 else 0) = x
      | _ \<Rightarrow> False)"

definition int_in_json :: "int \<Rightarrow> json \<Rightarrow> exn + bool" where
  "int_in_json x c =
     (case c of
        JList xs \<Rightarrow> Inr (list_ex (\<lambda>v. json_eq_int v x) xs)
      | JDict d \<Rightarrow> Inr False
      | _ \<Rightarrow> Inl TypeError)"

text \<open>
  \<^verbatim>\<open>_parse_time\<close>: the text before the first colon and the text after it are read with
  \<^verbatim>\<open>int\<close>, and \<^verbatim>\<open>time(h, m)\<close> rejects values out of range. The result is in seconds.
\<close>

definition parse_time :: "pylib \<Rightarrow> json \<Rightarrow> exn + real" where
  "parse_time L t =
     (case t of
        JStr s \<Rightarrow>
          (case split_on CHR '':'' s of
             [] \<Rightarrow> Inl IndexError
           | a # rest \<Rightarrow>
               ebind (py_int L a) (\<lambda>hh.
                 case rest of
                   [] \<Rightarrow> Inl IndexError
                 | b # rest' \<Rightarrow>
                     ebind (py_int L b) (\<lambda>mm.
                       if 0 \<le> hh \<and> hh < 24 \<and> 0 \<le> mm \<and> mm < 60
                       then Inr (of_int (hh * 3600 + mm * 60))
                       else Inl ValueError)))
      | _ \<Rightarrow> Inl AttributeError)"

definition time_window_body :: "pylib \<Rightarrow> real \<times> int \<Rightarrow> time_window_filter \<Rightarrow> exn + bool" where
  "time_window_body L local_now f =
     (let current_time = fst local_now; current_day = snd local_now
      in ebind (if tw_days_of_week f \<noteq> JNull then int_in_json current_day (tw_days_of_week f) else Inr True)
           (\<lambda>day_ok.
              if \<not> day_ok then Inr False
              else if json_truthy (tw_start_time f) \<and> json_truthy (tw_end_time f)
              then ebind (parse_time L (tw_start_time f)) (\<lambda>start.
                   ebind (parse_time L (tw_end_time f)) (\<lambda>stop.
                     if start \<le> stop
                     then Inr (start \<le> current_time \<and> current_time \<le> stop)
                     else Inr (current_time \<ge> start \<or> current_time \<le> stop)))
              else Inr True))"

definition TimeWindowFilter_evaluate :: "pylib \<Rightarrow> real \<times> int \<Rightarrow> time_window_filter \<Rightarrow> exn + bool" where
  "TimeWindowFilter_evaluate L local_now f = try_except (time_window_body L local_now f) False"

text \<open>
  The filters. A composite filter holds its operator and the filters built from the
  configurations under \<^verbatim>\<open>filters\<close>.
\<close>

datatype filter = BooleanFilter boolean_filter | TimeWindowFilter time_window_filter
  | CompositeFilter json "filter list"

text \<open>
  \<^verbatim>\<open>for config in filter_configs\<close>: a list gives its elements. A dictionary gives its
  keys and a string its characters, none of which has a \<^verbatim>\<open>get\<close>, so the first one
  fails in \<^verbatim>\<open>from_config\<close>; anything else is not iterable.
\<close>

definition filter_configs_of :: "json \<Rightarrow> exn + json list" where
  "filter_configs_of v =
     (case v of
        JList xs \<Rightarrow> Inr xs
      | JDict d \<Rightarrow> (if d = [] then Inr [] else Inl AttributeError)
      | JStr s \<Rightarrow> (if s = [] then Inr [] else Inl AttributeError)
      | _ \<Rightarrow> Inl TypeError)"

lemma jget_size:
  "size (jget d k dflt) < size (JDict d) \<or> jget d k dflt = dflt"
proof (cases "map_of d k")
  case None
  then show ?thesis by (simp add: jget_def)
next
  case (Some v)
  then have "(k, v) \<in> set d" by (rule map_of_SomeD)
  then have "size v < size (JDict d)"
    by (induction d) auto
  then show ?thesis using Some by (simp add: jget_def)
qed

lemma params_or_empty_size:
  "params_or_empty ps = Inr p \<Longrightarrow> size_list (size_prod (\<lambda>x. 0) size) p < size ps \<or> p = []"
  by (cases ps) (auto simp: params_or_empty_def split: if_splits)

text \<open>
  \<^verbatim>\<open>Filter.from_config\<close>: the registry is closed, an unknown type tag raises
  \<^verbatim>\<open>ValueError\<close>. A configuration that is not a dictionary has no \<^verbatim>\<open>get\<close>.
\<close>

function Filter_from_config :: "json \<Rightarrow> exn + filter"
  and Filter_from_configs :: "json list \<Rightarrow> exn + filter list" where
  "Filter_from_config config =
     (case config of
        JDict d \<Rightarrow>
          (let filter_type = jget d ''type'' (JStr ''boolean'');
               params = jget d ''params'' (JDict [])
           in if filter_type = JStr ''boolean'' then map_sum id BooleanFilter (BooleanFilter_init params)
              else if filter_type = JStr ''time_window'' then map_sum id TimeWindowFilter (TimeWindowFilter_init params)
              else if filter_type = JStr ''composite''
              then (case params_or_empty params of
                      Inl e \<Rightarrow> Inl e
                    | Inr p \<Rightarrow>
                        (case filter_configs_of (jget p ''filters'' (JList [])) of
                           Inl e \<Rightarrow> Inl e
                         | Inr cs \<Rightarrow>
                             (case Filter_from_configs cs of
                                Inl e \<Rightarrow> Inl e
                              | Inr fs \<Rightarrow> Inr (CompositeFilter (jget p ''operator'' (JStr ''and'')) fs))))
              else Inl ValueError)
      | _ \<Rightarrow> Inl AttributeError)"
| "Filter_from_configs [] = Inr []"
| "Filter_from_configs (c # cs) =
     (case Filter_from_config c of
        Inl e \<Rightarrow> Inl e
      | Inr f \<Rightarrow> (case Filter_from_configs cs of Inl e \<Rightarrow> Inl e | Inr fs \<Rightarrow> Inr (f # fs)))"
  by pat_completeness auto
termination
proof (relation "measure (\<lambda>x. case x of Inl c \<Rightarrow> 2 * size c + 1 | Inr cs \<Rightarrow> 2 * size_list size cs)")
  show "wf (measure (\<lambda>x. case x of Inl c \<Rightarrow> 2 * size c + 1 | Inr cs \<Rightarrow> 2 * size_list size cs))"
    by simp
next
  fix config :: json and d filter_type params p cs
  assume c: "config = JDict d" and ft: "filter_type = jget d ''type'' (JStr ''boolean'')"
    and ps: "params = jget d ''params'' (JDict [])"
    and pe: "params_or_empty params = Inr p"
    and fc: "filter_configs_of (jget p ''filters'' (JList [])) = Inr cs"
  have 1: "size params < size config \<or> params = JDict []"
    using jget_size [of d "''params''" "JDict []"] c ps by simp
  have 2: "size_list (size_prod (\<lambda>x. 0) size) p < size params \<or> p = []"
    using pe by (rule params_or_empty_size)
  have 3: "size (jget p ''filters'' (JList [])) < size (JDict p) \<or> jget p ''filters'' (JList []) = JList []"
    by (rule jget_size)
  have 4: "size_list size cs \<le> size (jget p ''filters'' (JList []))"
    using fc by (cases "jget p ''filters'' (JList [])") (auto simp: filter_configs_of_def split: if_splits)
  have "size_list size cs < size config \<or> cs = []"
  proof (cases "jget p ''filters'' (JList []) = JList []")
    case True
    then show ?thesis using fc by (simp add: filter_configs_of_def)
  next
    case False
    then have a: "size_list size cs < size (JDict p)" using 3 4 by simp
    have "p \<noteq> []" using False by (auto simp: jget_def)
    then have b: "size (JDict p) \<le> size params" using 2 by simp
    have "params \<noteq> JDict []" using pe \<open>p \<noteq> []\<close> by (auto simp: params_or_empty_def)
    then have "size params < size config" using 1 by simp
    then show ?thesis using a b by simp
  qed
  then show "(Inr cs, Inl config) \<in> measure (\<lambda>x. case x of Inl c \<Rightarrow> 2 * size c + 1 | Inr cs \<Rightarrow> 2 * size_list size cs)"
    by auto
next
  fix c :: json and cs :: "json list"
  show "(Inl c, Inr (c # cs)) \<in> measure (\<lambda>x. case x of Inl c \<Rightarrow> 2 * size c + 1 | Inr cs \<Rightarrow> 2 * size_list size cs)"
    by simp
next
  fix c :: json and cs :: "json list" and f
  show "(Inr cs, Inr (c # cs)) \<in> measure (\<lambda>x. case x of Inl c \<Rightarrow> 2 * size c + 1 | Inr cs \<Rightarrow> 2 * size_list size cs)"
    by simp
qed

text \<open>
  \<^verbatim>\<open>evaluate\<close> of each filter. \<^verbatim>\<open>all\<close> and \<^verbatim>\<open>any\<close> stop at the first filter that
  decides; \<^verbatim>\<open>not\<close> looks at the first filter only. One reading of the local clock serves
  the whole evaluation.
\<close>

fun filter_evaluate :: "pylib \<Rightarrow> real \<times> int \<Rightarrow> heap \<Rightarrow> filter \<Rightarrow> pyval \<Rightarrow> exn + bool"
  and filters_all :: "pylib \<Rightarrow> real \<times> int \<Rightarrow> heap \<Rightarrow> filter list \<Rightarrow> pyval \<Rightarrow> exn + bool"
  and filters_any :: "pylib \<Rightarrow> real \<times> int \<Rightarrow> heap \<Rightarrow> filter list \<Rightarrow> pyval \<Rightarrow> exn + bool" where
  "filter_evaluate L t h (BooleanFilter f) event_data = BooleanFilter_evaluate L h f event_data"
| "filter_evaluate L t h (TimeWindowFilter f) event_data = TimeWindowFilter_evaluate L t f"
| "filter_evaluate L t h (CompositeFilter operator []) event_data = Inr True"
| "filter_evaluate L t h (CompositeFilter operator (f # fs)) event_data =
     try_except
       (if operator = JStr ''and'' then filters_all L t h (f # fs) event_data
        else if operator = JStr ''or'' then filters_any L t h (f # fs) event_data
        else if operator = JStr ''not''
        then ebind (filter_evaluate L t h f event_data) (\<lambda>b. Inr (\<not> b))
        else Inr False)
       False"
| "filters_all L t h [] event_data = Inr True"
| "filters_all L t h (f # fs) event_data =
     ebind (filter_evaluate L t h f event_data) (\<lambda>b.
       if b then filters_all L t h fs event_data else Inr False)"
| "filters_any L t h [] event_data = Inr False"
| "filters_any L t h (f # fs) event_data =
     ebind (filter_evaluate L t h f event_data) (\<lambda>b.
       if b then Inr True else filters_any L t h fs event_data)"

section \<open>Transformers (pipeline/transformers.py)\<close>

text \<open>
  \<^verbatim>\<open>v.copy()\<close>: a new object with the same items; the items themselves are shared. A
  scalar has no \<^verbatim>\<open>copy\<close>.
\<close>

definition copy_obj :: "heap \<Rightarrow> pyval \<Rightarrow> exn + (pyval \<times> heap)" where
  "copy_obj h v =
     (case v of
        PRef a \<Rightarrow> (case heap_get h a of
                     None \<Rightarrow> Inl AttributeError
                   | Some ob \<Rightarrow> (let (a', h') = alloc ob h in Inr (PRef a', h')))
      | _ \<Rightarrow> Inl AttributeError)"

text \<open>
  \<^verbatim>\<open>obj[key] = value\<close> with a key taken from the configuration. Payload dictionaries
  have string keys in this model; a hashable key that is not a string is not
  representable and is reported as an error, so the transformer hands the payload back
  unchanged. A list takes integer keys in range.
\<close>

definition setitem :: "heap \<Rightarrow> pyval \<Rightarrow> json \<Rightarrow> pyval \<Rightarrow> exn + heap" where
  "setitem h obj key v =
     (case obj of
        PRef a \<Rightarrow>
          (case heap_get h a of
             Some (ODict d) \<Rightarrow>
               (case key of
                  JStr k \<Rightarrow> Inr (h[a := ODict (dict_set d k v)])
                | JList xs \<Rightarrow> Inl TypeError
                | JDict kd \<Rightarrow> Inl TypeError
                | _ \<Rightarrow> Inl OtherError)
           | Some (OList xs) \<Rightarrow>
               (case key of
                  JInt i \<Rightarrow>
                    (if 0 \<le> i \<and> i < int (length xs)
                     then Inr (h[a := OList (xs[nat i := v])])
                     else if i < 0 \<and> - i \<le> int (length xs)
                     then Inr (h[a := OList (xs[nat (int (length xs) + i) := v])])
                     else Inl IndexError)
                | _ \<Rightarrow> Inl TypeError)
           | None \<Rightarrow> Inl TypeError)
      | _ \<Rightarrow> Inl TypeError)"

text \<open>Iterating over a configuration value.\<close>

definition iter_json :: "json \<Rightarrow> exn + json list" where
  "iter_json v =
     (case v of
        JList xs \<Rightarrow> Inr xs
      | JDict d \<Rightarrow> Inr (map (\<lambda>kv. JStr (fst kv)) d)
      | JStr s \<Rightarrow> Inr (map (\<lambda>c. JStr [c]) s)
      | _ \<Rightarrow> Inl TypeError)"

text \<open>\<^verbatim>\<open>str.isdigit\<close> and \<^verbatim>\<open>int\<close> on a string of decimal digits.\<close>

definition is_digit :: "char \<Rightarrow> bool" where
  "is_digit c = (c \<in> set ''0123456789'')"

definition isdigit :: "string \<Rightarrow> bool" where
  "isdigit s = (s \<noteq> [] \<and> list_all is_digit s)"

definition digit_value :: "char \<Rightarrow> nat" where
  "digit_value c = of_char c - 48"

definition int_of_digits :: "string \<Rightarrow> nat" where
  "int_of_digits s = foldl (\<lambda>n c. 10 * n + digit_value c) 0 s"

subsection \<open>extract_field\<close>

record extract_field_transformer =
  ef_fields :: json
  ef_output_key :: json
  ef_flatten :: json

definition ExtractFieldTransformer_init :: "json \<Rightarrow> exn + extract_field_transformer" where
  "ExtractFieldTransformer_init params =
     ebind (params_or_empty params) (\<lambda>p.
       Inr \<lparr>ef_fields = jget p ''fields'' (JList []),
            ef_output_key = jget p ''output_key'' (JStr ''extracted''),
            ef_flatten = jget p ''flatten'' (JBool False)\<rparr>)"

text \<open>
  Its \<^verbatim>\<open>_get_nested_value\<close> also steps into a list when the key is a number.
\<close>

fun ef_resolve_keys :: "heap \<Rightarrow> pyval \<Rightarrow> string list \<Rightarrow> pyval" where
  "ef_resolve_keys h v [] = v"
| "ef_resolve_keys h v (k # ks) =
     (case as_dict h v of
        Some d \<Rightarrow> ef_resolve_keys h (dict_get d k) ks
      | None \<Rightarrow>
          (case as_list h v of
             Some xs \<Rightarrow>
               (if isdigit k
                then ef_resolve_keys h (if int_of_digits k < length xs then xs ! int_of_digits k else PNone) ks
                else PNone)
           | None \<Rightarrow> PNone))"

text \<open>The loop over \<^verbatim>\<open>self.fields\<close> that fills the dictionary \<^verbatim>\<open>extracted\<close>.\<close>

fun extract_loop :: "heap \<Rightarrow> pyval \<Rightarrow> bool \<Rightarrow> json list \<Rightarrow> (string \<times> pyval) list \<Rightarrow> exn + (string \<times> pyval) list" where
  "extract_loop h event_data flatten [] extracted = Inr extracted"
| "extract_loop h event_data flatten (fp # fps) extracted =
     (case fp of
        JStr s \<Rightarrow>
          (let v = ef_resolve_keys h event_data (split_on CHR ''.'' s);
               key = (if flatten then last (split_on CHR ''.'' s) else s)
           in extract_loop h event_data flatten fps (dict_set extracted key v))
      | _ \<Rightarrow> Inl AttributeError)"

definition extract_field_body :: "heap \<Rightarrow> extract_field_transformer \<Rightarrow> pyval \<Rightarrow> exn + (pyval \<times> heap)" where
  "extract_field_body h t event_data =
     ebind (copy_obj h event_data) (\<lambda>(result, h1).
     ebind (iter_json (ef_fields t)) (\<lambda>fps.
     ebind (extract_loop h1 event_data (json_truthy (ef_flatten t)) fps []) (\<lambda>extracted.
       let (a, h2) = alloc (ODict extracted) h1
       in ebind (setitem h2 result (ef_output_key t) (PRef a)) (\<lambda>h3. Inr (result, h3)))))"

subsection \<open>format_string\<close>

record format_string_transformer =
  fs_template :: json
  fs_output_key :: json

definition FormatStringTransformer_init :: "json \<Rightarrow> exn + format_string_transformer" where
  "FormatStringTransformer_init params =
     ebind (params_or_empty params) (\<lambda>p.
       Inr \<lparr>fs_template = jget p ''template'' (JStr []),
            fs_output_key = jget p ''output_key'' (JStr ''formatted'')\<rparr>)"

definition format_string_body :: "pylib \<Rightarrow> heap \<Rightarrow> format_string_transformer \<Rightarrow> pyval \<Rightarrow> exn + (pyval \<times> heap)" where
  "format_string_body L h t event_data =
     ebind (copy_obj h event_data) (\<lambda>(result, h1).
       case fs_template t of
         JStr template \<Rightarrow>
           (let formatted =
                  foldl (\<lambda>acc m.
                          let v = resolve_keys h1 event_data (split_on CHR ''.'' m)
                          in py_replace L acc (''{'' @ m @ ''}'') (if v \<noteq> PNone then py_str L h1 v else []))
                        template (re_findall_braces L template)
            in ebind (setitem h1 result (fs_output_key t) (PStr formatted)) (\<lambda>h2. Inr (result, h2)))
       | _ \<Rightarrow> Inl TypeError)"

subsection \<open>math\<close>

record math_transformer =
  m_field :: json
  m_operation :: json
  m_operand :: json
  m_output_key :: json

definition MathTransformer_init :: "json \<Rightarrow> exn + math_transformer" where
  "MathTransformer_init params =
     ebind (params_or_empty params) (\<lambda>p.
       Inr \<lparr>m_field = jget p ''field'' (JStr []),
            m_operation = jget p ''operation'' (JStr ''add''),
            m_operand = jget p ''operand'' (JInt 0),
            m_output_key = jget p ''output_key'' (JStr ''result'')\<rparr>)"

text \<open>
  The table \<^verbatim>\<open>OPERATIONS\<close>, applied to two floats (modelled as reals). Division and
  modulo by zero give the integer 0.
\<close>

definition OPERATIONS :: "(string \<times> (pylib \<Rightarrow> real \<Rightarrow> real \<Rightarrow> exn + pyval)) list" where
  "OPERATIONS =
     [(''add'', \<lambda>L a b. Inr (PFloat (a + b))),
      (''subtract'', \<lambda>L a b. Inr (PFloat (a - b))),
      (''multiply'', \<lambda>L a b. Inr (PFloat (a * b))),
      (''divide'', \<lambda>L a b. Inr (if b \<noteq> 0 then PFloat (a / b) else PInt 0)),
      (''modulo'', \<lambda>L a b. Inr (if b \<noteq> 0 then PFloat (a - b * of_int \<lfloor>a / b\<rfloor>) else PInt 0)),
      (''power'', \<lambda>L a b. map_sum id PFloat (float_power L a b)),
      (''min'', \<lambda>L a b. Inr (PFloat (min a b))),
      (''max'', \<lambda>L a b. Inr (PFloat (max a b))),
      (''abs'', \<lambda>L a b. Inr (PFloat \<bar>a\<bar>)),
      (''round'', \<lambda>L a b. float_round L a b)]"

definition lookup_operation :: "json \<Rightarrow> exn + (pylib \<Rightarrow> real \<Rightarrow> real \<Rightarrow> exn + pyval) option" where
  "lookup_operation operation =
     (case operation of
        JStr s \<Rightarrow> Inr (map_of OPERATIONS s)
      | JList xs \<Rightarrow> Inl TypeError
      | JDict d \<Rightarrow> Inl TypeError
      | _ \<Rightarrow> Inr None)"

definition math_body :: "pylib \<Rightarrow> heap \<Rightarrow> math_transformer \<Rightarrow> pyval \<Rightarrow> exn + (pyval \<times> heap)" where
  "math_body L h t event_data =
     ebind (copy_obj h event_data) (\<lambda>(result, h1).
     ebind (resolve_path h1 event_data (m_field t)) (\<lambda>v.
       if v = PNone then Inr (event_data, h1)
       else ebind (lookup_operation (m_operation t)) (\<lambda>found.
         case found of
           None \<Rightarrow> Inr (event_data, h1)
         | Some op_func \<Rightarrow>
             ebind (py_float L h1 v) (\<lambda>a.
             ebind (py_float_cfg L (m_operand t)) (\<lambda>b.
             ebind (op_func L a b) (\<lambda>calculated.
             ebind (setitem h1 result (m_output_key t) calculated) (\<lambda>h2. Inr (result, h2))))))))"

subsection \<open>json_path\<close>

record json_path_transformer =
  jp_path :: json
  jp_output_key :: json

definition JsonPathTransformer_init :: "json \<Rightarrow> exn + json_path_transformer" where
  "JsonPathTransformer_init params =
     ebind (params_or_empty params) (\<lambda>p.
       Inr \<lparr>jp_path = jget p ''path'' (JStr ''$''),
            jp_output_key = jget p ''output_key'' (JStr ''json_result'')\<rparr>)"

text \<open>
  \<^verbatim>\<open>_eval_path\<close> calls itself on the rest of the path; the first argument bounds the
  depth of the calls, and reaching the bound is the interpreter's \<^verbatim>\<open>RecursionError\<close>.
\<close>

fun eval_path :: "pylib \<Rightarrow> nat \<Rightarrow> heap \<Rightarrow> pyval \<Rightarrow> string \<Rightarrow> exn + pyval" where
  "eval_path L 0 h data path = Inl RecursionError"
| "eval_path L (Suc n) h data path =
     (if path = [] then Inr data
      else (case re_match_index L path of
              Some (field, idx, rest) \<Rightarrow>
                (let data1 = (if field \<noteq> []
                              then (case as_dict h data of Some d \<Rightarrow> dict_get d field | None \<Rightarrow> PNone)
                              else data);
                     data2 = (case as_list h data1 of
                                Some xs \<Rightarrow> if idx < length xs then xs ! idx else PNone
                              | None \<Rightarrow> data1)
                 in eval_path L n h data2 (dropWhile (\<lambda>c. c = CHR ''.'') rest))
            | None \<Rightarrow>
                (let field = takeWhile (\<lambda>c. c \<noteq> CHR ''.'') path;
                     rest = drop 1 (dropWhile (\<lambda>c. c \<noteq> CHR ''.'') path)
                 in case as_dict h data of
                      Some d \<Rightarrow> eval_path L n h (dict_get d field) rest
                    | None \<Rightarrow> Inr PNone)))"

definition json_path_body :: "pylib \<Rightarrow> heap \<Rightarrow> json_path_transformer \<Rightarrow> pyval \<Rightarrow> exn + (pyval \<times> heap)" where
  "json_path_body L h t event_data =
     ebind (copy_obj h event_data) (\<lambda>(result, h1).
       case jp_path t of
         JStr path0 \<Rightarrow>
           (let path1 = (if prefix ''$'' path0 then drop 1 path0 else path0);
                path2 = (if prefix ''.'' path1 then drop 1 path1 else path1)
            in ebind (eval_path L (recursion_limit L) h1 event_data path2) (\<lambda>v.
               ebind (setitem h1 result (jp_output_key t) v) (\<lambda>h2. Inr (result, h2))))
       | _ \<Rightarrow> Inl AttributeError)"

subsection \<open>The transformers and their factory\<close>

datatype transformer = PassthroughTransformer
  | ExtractFieldTransformer extract_field_transformer
  | FormatStringTransformer format_string_transformer
  | MathTransformer math_transformer
  | JsonPathTransformer json_path_transformer

text \<open>
  \<^verbatim>\<open>Transformer.from_config\<close>: the registry is closed, an unknown type tag raises
  \<^verbatim>\<open>ValueError\<close>.
\<close>

definition Transformer_from_config :: "json \<Rightarrow> exn + transformer" where
  "Transformer_from_config config =
     (case config of
        JDict d \<Rightarrow>
          (let transformer_type = jget d ''type'' (JStr ''passthrough'');
               params = jget d ''params'' (JDict [])
           in if transformer_type = JStr ''extract_field''
              then map_sum id ExtractFieldTransformer (ExtractFieldTransformer_init params)
              else if transformer_type = JStr ''format_string''
              then map_sum id FormatStringTransformer (FormatStringTransformer_init params)
              else if transformer_type = JStr ''math''
              then map_sum id MathTransformer (MathTransformer_init params)
              else if transformer_type = JStr ''json_path''
              then map_sum id JsonPathTransformer (JsonPathTransformer_init params)
              else if transformer_type = JStr ''passthrough''
              then Inr PassthroughTransformer
              else Inl ValueError)
      | _ \<Rightarrow> Inl AttributeError)"

text \<open>
  \<^verbatim>\<open>transform\<close>: each body runs inside \<^verbatim>\<open>try\<close>, and \<^verbatim>\<open>except Exception\<close> returns the
  payload it was given. Objects created by a body that raised are unreachable and are
  not kept in the store.
\<close>

definition transform_body :: "pylib \<Rightarrow> heap \<Rightarrow> transformer \<Rightarrow> pyval \<Rightarrow> exn + (pyval \<times> heap)" where
  "transform_body L h t event_data =
     (case t of
        PassthroughTransformer \<Rightarrow> Inr (event_data, h)
      | ExtractFieldTransformer x \<Rightarrow> extract_field_body h x event_data
      | FormatStringTransformer x \<Rightarrow> format_string_body L h x event_data
      | MathTransformer x \<Rightarrow> math_body L h x event_data
      | JsonPathTransformer x \<Rightarrow> json_path_body L h x event_data)"

definition transform :: "pylib \<Rightarrow> heap \<Rightarrow> transformer \<Rightarrow> pyval \<Rightarrow> pyval \<times> heap" where
  "transform L h t event_data =
     (case transform_body L h t event_data of
        Inl e \<Rightarrow> (event_data, h)
      | Inr r \<Rightarrow> r)"

section \<open>The signal event (signals/base.py)\<close>

text \<open>\<^verbatim>\<open>EventType\<close> is a string enumeration; these are the values of its members.\<close>

fun EventType_value :: "EventType \<Rightarrow> string" where
  "EventType_value VALUE_CHANGED = ''value_changed''"
| "EventType_value THRESHOLD_CROSSED = ''threshold_crossed''"
| "EventType_value STATE_CHANGED = ''state_changed''"
| "EventType_value DETECTED = ''detected''"
| "EventType_value CREATED = ''created''"
| "EventType_value MODIFIED = ''modified''"
| "EventType_value DELETED = ''deleted''"
| "EventType_value MOVED = ''moved''"

text \<open>\<^verbatim>\<open>EventType(value)\<close>: the member with that value, or \<^verbatim>\<open>ValueError\<close>.\<close>

definition EventType_of :: "pyval \<Rightarrow> exn + EventType" where
  "EventType_of v =
     (case v of
        PStr s \<Rightarrow>
          (case filter (\<lambda>t. EventType_value t = s)
                  [VALUE_CHANGED, THRESHOLD_CROSSED, STATE_CHANGED, DETECTED,
                   CREATED, MODIFIED, DELETED, MOVED] of
             [] \<Rightarrow> Inl ValueError
           | t # ts \<Rightarrow> Inr t)
      | _ \<Rightarrow> Inl ValueError)"

text \<open>
  The dataclass \<^verbatim>\<open>SignalEvent\<close>. The field \<^verbatim>\<open>event_type\<close> is declared of type
  \<^verbatim>\<open>EventType\<close> and every source of the repository fills it with a member, so the
  \<^verbatim>\<open>isinstance\<close> test of \<^verbatim>\<open>to_dict\<close> holds. \<^verbatim>\<open>data\<close> and \<^verbatim>\<open>metadata\<close> are references
  to dictionaries in the store.
\<close>

record SignalEvent =
  se_id :: string
  se_source_type :: string
  se_source_name :: string
  se_event_type :: EventType
  se_timestamp :: real
  se_data :: pyval
  se_metadata :: pyval

text \<open>
  \<^verbatim>\<open>to_dict\<close>: the items of the dictionary it builds, and the call itself, which
  creates the dictionary in the store. \<^verbatim>\<open>data\<close> and \<^verbatim>\<open>metadata\<close> are put in as they
  are: the new dictionary refers to the event's own objects.
\<close>

definition to_dict_items :: "pylib \<Rightarrow> SignalEvent \<Rightarrow> (string \<times> pyval) list" where
  "to_dict_items L e =
     [(''id'', PStr (se_id e)),
      (''source_type'', PStr (se_source_type e)),
      (''source_name'', PStr (se_source_name e)),
      (''event_type'', PStr (EventType_value (se_event_type e))),
      (''timestamp'', PStr (isoformat L (se_timestamp e))),
      (''data'', se_data e),
      (''metadata'', se_metadata e)]"

definition to_dict :: "pylib \<Rightarrow> SignalEvent \<Rightarrow> heap \<Rightarrow> addr \<times> heap" where
  "to_dict L e h = alloc (ODict (to_dict_items L e)) h"

text \<open>
  \<^verbatim>\<open>from_dict\<close> on the items of a dictionary. \<open>fresh_id\<close> and \<open>now\<close> stand for
  \<^verbatim>\<open>str(uuid.uuid4())\<close> and \<^verbatim>\<open>datetime.utcnow()\<close>. A missing \<^verbatim>\<open>data\<close> or \<^verbatim>\<open>metadata\<close>
  is a new empty dictionary (created in the store only when it is used). A string field
  that holds something else than a string is outside the record type.
\<close>

definition str_field :: "(string \<times> pyval) list \<Rightarrow> string \<Rightarrow> string \<Rightarrow> exn + string" where
  "str_field d k dflt =
     (case map_of d k of None \<Rightarrow> Inr dflt | Some (PStr s) \<Rightarrow> Inr s | Some _ \<Rightarrow> Inl TypeError)"

definition dict_field :: "(string \<times> pyval) list \<Rightarrow> string \<Rightarrow> heap \<Rightarrow> pyval \<times> heap" where
  "dict_field d k h =
     (case map_of d k of
        None \<Rightarrow> (let (a, h') = alloc (ODict []) h in (PRef a, h'))
      | Some v \<Rightarrow> (v, h))"

definition from_dict ::
  "pylib \<Rightarrow> string \<Rightarrow> real \<Rightarrow> heap \<Rightarrow> (string \<times> pyval) list \<Rightarrow> exn + (SignalEvent \<times> heap)" where
  "from_dict L fresh_id now h d =
     ebind (str_field d ''id'' fresh_id) (\<lambda>i.
     ebind (str_field d ''source_type'' []) (\<lambda>st.
     ebind (str_field d ''source_name'' []) (\<lambda>sn.
     ebind (EventType_of (case map_of d ''event_type'' of None \<Rightarrow> PStr ''value_changed'' | Some v \<Rightarrow> v)) (\<lambda>et.
     ebind (case map_of d ''timestamp'' of
              None \<Rightarrow> Inr now
            | Some (PStr s) \<Rightarrow> fromisoformat L s
            | Some _ \<Rightarrow> Inl TypeError) (\<lambda>ts.
       let (dv, h1) = dict_field d ''data'' h;
           (mv, h2) = dict_field d ''metadata'' h1
       in Inr (\<lparr>se_id = i, se_source_type = st, se_source_name = sn, se_event_type = et,
                se_timestamp = ts, se_data = dv, se_metadata = mv\<rparr>, h2))))))"

section \<open>Execution policies (pipeline/policies.py)\<close>

text \<open>
  The context dictionary an action node builds for its policy and its action: the
  payload, the pipeline id, the node id and the node's parameters. The debounce policy
  looks for one more key, \<^verbatim>\<open>_execute_callback\<close>, which holds a callable (named by a
  string here) when a caller provides it.
\<close>

record action_context =
  ctx_event :: pyval
  ctx_pipeline_id :: int
  ctx_node_id :: json
  ctx_params :: json
  ctx_execute_callback :: "string option"

text \<open>
  \<^verbatim>\<open>DebouncePolicy\<close>: the pending task of each action id (the coroutine
  \<^verbatim>\<open>_delayed_execute\<close> with its context, and whether it was cancelled) and the callback
  registered for it.
\<close>

record debounce_task =
  task_context :: action_context
  task_cancelled :: bool

record debounce_policy =
  delay_seconds :: real
  pending_tasks :: "string \<rightharpoonup> debounce_task"
  execution_callbacks :: "string \<rightharpoonup> string"

record cooldown_policy =
  cooldown_seconds :: real
  last_execution :: "string \<rightharpoonup> real"

datatype policy = NoPolicy | DebouncePolicy debounce_policy | RateLimitPolicy rate_limit_policy
  | CooldownPolicy cooldown_policy | ConditionalPolicy json

text \<open>
  The numeric parameters. A parameter that is not a number is outside the model: the
  constructors of the code store whatever they are given and the \<^verbatim>\<open>TypeError\<close> comes at
  the first use; the model reports it when the policy is built.
\<close>

definition json_number :: "json \<Rightarrow> exn + real" where
  "json_number v = (case v of JInt i \<Rightarrow> Inr (of_int i) | JFloat x \<Rightarrow> Inr x | _ \<Rightarrow> Inl TypeError)"

definition json_int :: "json \<Rightarrow> exn + int" where
  "json_int v = (case v of JInt i \<Rightarrow> Inr i | _ \<Rightarrow> Inl TypeError)"

text \<open>
  \<^verbatim>\<open>ExecutionPolicy.from_config\<close>: the registry is closed, an unknown type tag raises
  \<^verbatim>\<open>ValueError\<close> (the tag \<^verbatim>\<open>composite\<close> included: it has no branch here).
\<close>

definition ExecutionPolicy_from_config :: "json \<Rightarrow> exn + policy" where
  "ExecutionPolicy_from_config config =
     (case config of
        JDict d \<Rightarrow>
          (let policy_type = jget d ''type'' (JStr ''none'');
               params = jget d ''params'' (JDict [])
           in if policy_type = JStr ''debounce''
              then ebind (params_or_empty params) (\<lambda>p.
                   ebind (json_number (jget p ''delay_seconds'' (JFloat 1))) (\<lambda>delay.
                     Inr (DebouncePolicy \<lparr>delay_seconds = delay, pending_tasks = Map.empty,
                                          execution_callbacks = Map.empty\<rparr>)))
              else if policy_type = JStr ''rate_limit''
              then ebind (params_or_empty params) (\<lambda>p.
                   ebind (json_int (jget p ''max_executions'' (JInt 5))) (\<lambda>n.
                   ebind (json_number (jget p ''window_seconds'' (JInt 60))) (\<lambda>w.
                     Inr (RateLimitPolicy (rate_limit_init n w)))))
              else if policy_type = JStr ''conditional''
              then ebind (params_or_empty params) (\<lambda>p.
                     Inr (ConditionalPolicy (jget p ''condition'' (JDict []))))
              else if policy_type = JStr ''cooldown''
              then ebind (params_or_empty params) (\<lambda>p.
                   ebind (json_number (jget p ''cooldown_seconds'' (JInt 10))) (\<lambda>c.
                     Inr (CooldownPolicy \<lparr>cooldown_seconds = c, last_execution = Map.empty\<rparr>)))
              else if policy_type = JStr ''none'' then Inr NoPolicy
              else Inl ValueError)
      | _ \<Rightarrow> Inl AttributeError)"

text \<open>
  \<^verbatim>\<open>DebouncePolicy.should_execute\<close>: a pending task of the same action id is cancelled;
  a new task is scheduled only when the context holds a callback; the answer is always
  \<^verbatim>\<open>False\<close>.
\<close>

definition debounce_should_execute :: "string \<Rightarrow> action_context \<Rightarrow> debounce_policy \<Rightarrow> bool \<times> debounce_policy" where
  "debounce_should_execute action_id ctx p =
     (let p1 = (case pending_tasks p action_id of
                  None \<Rightarrow> p
                | Some t \<Rightarrow> p\<lparr>pending_tasks := (pending_tasks p)(action_id \<mapsto> t\<lparr>task_cancelled := True\<rparr>)\<rparr>)
      in case ctx_execute_callback ctx of
           None \<Rightarrow> (False, p1)
         | Some callback \<Rightarrow>
             (False, p1\<lparr>execution_callbacks := (execution_callbacks p1)(action_id \<mapsto> callback),
                        pending_tasks := (pending_tasks p1)(action_id \<mapsto>
                                           \<lparr>task_context = ctx, task_cancelled = False\<rparr>)\<rparr>))"

definition cooldown_should_execute :: "real \<Rightarrow> string \<Rightarrow> cooldown_policy \<Rightarrow> bool" where
  "cooldown_should_execute now action_id p =
     (case last_execution p action_id of
        None \<Rightarrow> True
      | Some last_exec \<Rightarrow> \<not> (now - last_exec < cooldown_seconds p))"

text \<open>
  \<^verbatim>\<open>ConditionalPolicy.should_execute\<close>: the filter is built from the condition at each
  call and evaluated on the payload's \<^verbatim>\<open>data\<close>; any exception admits. A payload
  without \<^verbatim>\<open>data\<close> gives a new empty dictionary, which lives for the call only.
\<close>

definition conditional_body :: "pylib \<Rightarrow> real \<times> int \<Rightarrow> heap \<Rightarrow> json \<Rightarrow> action_context \<Rightarrow> exn + bool" where
  "conditional_body L t h condition ctx =
     (if \<not> json_truthy condition then Inr True
      else (let found = (case as_dict h (ctx_event ctx) of
                           Some d \<Rightarrow> map_of d ''data''
                         | None \<Rightarrow> None);
                h' = (case found of None \<Rightarrow> h @ [ODict []] | Some v \<Rightarrow> h);
                event_data = (case found of None \<Rightarrow> PRef (length h) | Some v \<Rightarrow> v)
            in ebind (Filter_from_config condition) (\<lambda>f. filter_evaluate L t h' f event_data)))"

text \<open>
  \<^verbatim>\<open>should_execute\<close> and \<^verbatim>\<open>on_execute\<close> of each policy; \<open>now\<close> is the reading of
  \<^verbatim>\<open>datetime.utcnow()\<close> and \<open>t\<close> that of the local clock.
\<close>

definition policy_should_execute ::
  "pylib \<Rightarrow> real \<times> int \<Rightarrow> real \<Rightarrow> heap \<Rightarrow> string \<Rightarrow> action_context \<Rightarrow> policy \<Rightarrow> bool \<times> policy" where
  "policy_should_execute L t now h action_id ctx pol =
     (case pol of
        NoPolicy \<Rightarrow> (True, pol)
      | DebouncePolicy p \<Rightarrow> map_prod id DebouncePolicy (debounce_should_execute action_id ctx p)
      | RateLimitPolicy p \<Rightarrow> map_prod id RateLimitPolicy (rl_should_execute now action_id p)
      | CooldownPolicy p \<Rightarrow> (cooldown_should_execute now action_id p, pol)
      | ConditionalPolicy condition \<Rightarrow>
          (case try_except (conditional_body L t h condition ctx) True of
             Inl e \<Rightarrow> (True, pol)
           | Inr b \<Rightarrow> (b, pol)))"

definition policy_on_execute :: "real \<Rightarrow> string \<Rightarrow> policy \<Rightarrow> policy" where
  "policy_on_execute now action_id pol =
     (case pol of
        RateLimitPolicy p \<Rightarrow> RateLimitPolicy (rl_on_execute now action_id p)
      | CooldownPolicy p \<Rightarrow> CooldownPolicy (p\<lparr>last_execution := (last_execution p)(action_id \<mapsto> now)\<rparr>)
      | _ \<Rightarrow> pol)"

section \<open>The pipeline executor (pipeline/executor.py)\<close>

subsection \<open>Actions\<close>

text \<open>
  An action object is its class, named by the registry key, and its parameters. What
  \<^verbatim>\<open>safe_execute\<close> does on the host is outside the pipeline code; the actions of the
  repository read the payload and never write to it.
\<close>

record action =
  action_type :: string
  action_params :: json

record ActionResult =
  ar_status :: string
  ar_message :: string

definition ACTIONS :: "string list" where
  "ACTIONS = [''notification'', ''shell'', ''file_operation'', ''process_control'', ''network_control'']"

text \<open>\<^verbatim>\<open>get_action\<close> followed by the call of the class.\<close>

definition get_action :: "json \<Rightarrow> json \<Rightarrow> exn + action" where
  "get_action atype params =
     (case atype of
        JStr s \<Rightarrow> if s \<in> set ACTIONS then Inr \<lparr>action_type = s, action_params = params\<rparr> else Inl ValueError
      | JList xs \<Rightarrow> Inl TypeError
      | JDict d \<Rightarrow> Inl TypeError
      | _ \<Rightarrow> Inl ValueError)"

subsection \<open>Nodes, edges and pipelines\<close>

text \<open>\<^verbatim>\<open>v.get(key, default)\<close> on a configuration value: only a dictionary has \<^verbatim>\<open>get\<close>.\<close>

definition data_get :: "json \<Rightarrow> string \<Rightarrow> json \<Rightarrow> exn + json" where
  "data_get v k dflt = (case v of JDict d \<Rightarrow> Inr (jget d k dflt) | _ \<Rightarrow> Inl AttributeError)"

record PipelineNode =
  node_id :: json
  node_type :: json
  node_data :: json
  node_filter :: "filter option"
  node_transformer :: "transformer option"
  node_action :: "action option"
  node_policy :: "policy option"

text \<open>
  \<^verbatim>\<open>_initialize_component\<close>: the whole body is inside \<^verbatim>\<open>try\<close>, and
  \<^verbatim>\<open>except Exception\<close> only logs. A component whose construction raised stays
  \<^verbatim>\<open>None\<close>; for an action node the action is assigned before the policy is built, so a
  policy that fails leaves the action in place. The result lists the filter, the
  transformer, the action and the policy.
\<close>

definition initialize_component ::
  "json \<Rightarrow> json \<Rightarrow> filter option \<times> transformer option \<times> action option \<times> policy option" where
  "initialize_component ntype ndata =
     (if ntype = JStr ''filter''
      then (case ebind (data_get ndata ''filter'' (JDict [])) Filter_from_config of
              Inl e \<Rightarrow> (None, None, None, None)
            | Inr f \<Rightarrow> (Some f, None, None, None))
      else if ntype = JStr ''transformer''
      then (case ebind (data_get ndata ''transformer'' (JDict [])) Transformer_from_config of
              Inl e \<Rightarrow> (None, None, None, None)
            | Inr t \<Rightarrow> (None, Some t, None, None))
      else if ntype = JStr ''action''
      then (case ebind (data_get ndata ''action_type'' (JStr ''notification'')) (\<lambda>atype.
                 ebind (data_get ndata ''params'' (JDict [])) (\<lambda>aparams. get_action atype aparams)) of
              Inl e \<Rightarrow> (None, None, None, None)
            | Inr a \<Rightarrow>
                (case ebind (data_get ndata ''policy'' (JDict [(''type'', JStr ''none'')]))
                        ExecutionPolicy_from_config of
                   Inl e \<Rightarrow> (None, None, Some a, None)
                 | Inr p \<Rightarrow> (None, None, Some a, Some p)))
      else (None, None, None, None))"

text \<open>\<^verbatim>\<open>PipelineNode.__init__\<close> for a node configuration that is a dictionary.\<close>

definition PipelineNode_init :: "json \<Rightarrow> json \<Rightarrow> (string \<times> json) list \<Rightarrow> PipelineNode" where
  "PipelineNode_init nid ntype config =
     (let ndata = jget config ''data'' (JDict []);
          (f, t, a, p) = initialize_component ntype ndata
      in \<lparr>node_id = nid, node_type = ntype, node_data = ndata,
          node_filter = f, node_transformer = t, node_action = a, node_policy = p\<rparr>)"

record PipelineEdge =
  edge_id :: json
  edge_source :: json
  edge_target :: json

record Pipeline =
  pipeline_id :: int
  pipeline_name :: string
  is_active :: bool
  nodes :: "(json \<times> PipelineNode) list"
  edges :: "PipelineEdge list"
  adjacency :: "(json \<times> json list) list"

text \<open>
  The three loops of \<^verbatim>\<open>Pipeline.__init__\<close>. \<^verbatim>\<open>node_config["id"]\<close> raises
  \<^verbatim>\<open>KeyError\<close> on a dictionary without the key and \<^verbatim>\<open>TypeError\<close> on anything that is
  not a dictionary; an id or an edge source that is unhashable cannot be a dictionary
  key. The node dictionary keeps insertion order, and a repeated id overwrites in place.
\<close>

fun build_nodes :: "json list \<Rightarrow> (json \<times> PipelineNode) list \<Rightarrow> exn + (json \<times> PipelineNode) list" where
  "build_nodes [] acc = Inr acc"
| "build_nodes (c # cs) acc =
     (case c of
        JDict d \<Rightarrow>
          (case map_of d ''id'' of
             None \<Rightarrow> Inl KeyError
           | Some nid \<Rightarrow>
               if hashable nid
               then build_nodes cs (dict_set acc nid (PipelineNode_init nid (jget d ''type'' (JStr ''source'')) d))
               else Inl TypeError)
      | _ \<Rightarrow> Inl TypeError)"

fun build_edges :: "json list \<Rightarrow> exn + PipelineEdge list" where
  "build_edges [] = Inr []"
| "build_edges (c # cs) =
     (case c of
        JDict d \<Rightarrow>
          (case (map_of d ''id'', map_of d ''source'', map_of d ''target'') of
             (Some i, Some s, Some t) \<Rightarrow>
               ebind (build_edges cs) (\<lambda>es. Inr (\<lparr>edge_id = i, edge_source = s, edge_target = t\<rparr> # es))
           | _ \<Rightarrow> Inl KeyError)
      | _ \<Rightarrow> Inl TypeError)"

fun build_adjacency :: "PipelineEdge list \<Rightarrow> (json \<times> json list) list \<Rightarrow> exn + (json \<times> json list) list" where
  "build_adjacency [] acc = Inr acc"
| "build_adjacency (e # es) acc =
     (if hashable (edge_source e)
      then build_adjacency es
             (dict_set acc (edge_source e)
                ((case map_of acc (edge_source e) of None \<Rightarrow> [] | Some ts \<Rightarrow> ts) @ [edge_target e]))
      else Inl TypeError)"

definition Pipeline_init :: "int \<Rightarrow> string \<Rightarrow> json \<Rightarrow> json \<Rightarrow> exn + Pipeline" where
  "Pipeline_init pid name node_configs edge_configs =
     ebind (iter_json node_configs) (\<lambda>ncs.
     ebind (build_nodes ncs []) (\<lambda>ns.
     ebind (iter_json edge_configs) (\<lambda>ecs.
     ebind (build_edges ecs) (\<lambda>es.
     ebind (build_adjacency es []) (\<lambda>adj.
       Inr \<lparr>pipeline_id = pid, pipeline_name = name, is_active = True,
            nodes = ns, edges = es, adjacency = adj\<rparr>)))))"

definition get_source_nodes :: "Pipeline \<Rightarrow> PipelineNode list" where
  "get_source_nodes p = filter (\<lambda>n. node_type n = JStr ''source'') (map snd (nodes p))"

text \<open>
  \<^verbatim>\<open>get_connected_nodes\<close>: the targets of the node's out-edges, in edge order, that are
  nodes of the pipeline. The test \<^verbatim>\<open>tid in self.nodes\<close> raises on an unhashable target.
\<close>

fun lookup_targets :: "(json \<times> PipelineNode) list \<Rightarrow> json list \<Rightarrow> exn + PipelineNode list" where
  "lookup_targets ns [] = Inr []"
| "lookup_targets ns (tid # tids) =
     (if hashable tid
      then ebind (lookup_targets ns tids) (\<lambda>rest.
             Inr (case map_of ns tid of None \<Rightarrow> rest | Some n \<Rightarrow> n # rest))
      else Inl TypeError)"

definition get_connected_nodes :: "Pipeline \<Rightarrow> json \<Rightarrow> exn + PipelineNode list" where
  "get_connected_nodes p nid =
     lookup_targets (nodes p) (case map_of (adjacency p) nid of None \<Rightarrow> [] | Some ts \<Rightarrow> ts)"

subsection \<open>Loading\<close>

text \<open>
  The executor: the pipeline table and the subscription index. (The two lists of
  notification handlers have no influence on either and are left out.)
\<close>

record executor =
  pipelines :: "int \<rightharpoonup> Pipeline"
  source_subscriptions :: "json \<rightharpoonup> int list"


text \<open>The loop of \<^verbatim>\<open>load_pipeline\<close> over the source nodes.\<close>

fun register_sources :: "int \<Rightarrow> PipelineNode list \<Rightarrow> (json \<rightharpoonup> int list) \<Rightarrow> exn option \<times> (json \<rightharpoonup> int list)" where
  "register_sources pid [] subs = (None, subs)"
| "register_sources pid (n # ns) subs =
     (case data_get (node_data n) ''source_type'' (JStr []) of
        Inl e \<Rightarrow> (Some e, subs)
      | Inr source_type \<Rightarrow>
          if json_truthy source_type
          then (if hashable source_type
                then (let cur = (case subs source_type of None \<Rightarrow> [] | Some l \<Rightarrow> l)
                      in register_sources pid ns
                           (subs(source_type \<mapsto> (if pid \<in> set cur then cur else cur @ [pid]))))
                else (Some TypeError, subs))
          else register_sources pid ns subs)"

text \<open>
  \<^verbatim>\<open>load_pipeline\<close>. The result holds the exception that escaped, if any, and the
  executor as the call left it: an exception of \<^verbatim>\<open>Pipeline.__init__\<close> comes before
  any assignment, one of the subscription loop after the pipeline was stored.
\<close>

definition load_pipeline :: "executor \<Rightarrow> int \<Rightarrow> string \<Rightarrow> json \<Rightarrow> json \<Rightarrow> exn option \<times> executor" where
  "load_pipeline ex pid name node_configs edge_configs =
     (case Pipeline_init pid name node_configs edge_configs of
        Inl e \<Rightarrow> (Some e, ex)
      | Inr p \<Rightarrow>
          (let (r, subs) = register_sources pid (get_source_nodes p) (source_subscriptions ex)
           in (r, ex\<lparr>pipelines := (pipelines ex)(pid \<mapsto> p), source_subscriptions := subs\<rparr>)))"





subsection \<open>Traversal\<close>

text \<open>
  What a traversal needs from outside the pipeline code: the library, the readings of
  the two clocks (the n-th reading of \<^verbatim>\<open>datetime.utcnow()\<close> and of
  \<^verbatim>\<open>datetime.now()\<close>), and what \<^verbatim>\<open>safe_execute\<close> of an action returns for a context.
\<close>

record env =
  lib :: pylib
  utc_clock :: "nat \<Rightarrow> real"
  local_clock :: "nat \<Rightarrow> real \<times> int"
  safe_execute :: "action \<Rightarrow> action_context \<Rightarrow> heap \<Rightarrow> ActionResult"

text \<open>
  The state of \<^verbatim>\<open>_process_pipeline\<close>: the queue of node ids with their payloads, the
  results collected so far, the pipeline (its nodes hold the policy state), the store, the
  number of clock readings taken, and the exception that ended the traversal, if any. Two
  logs record what the traversal does to its surroundings: \<open>visited\<close> lists the nodes
  announced to the event handlers (\<^verbatim>\<open>_notify_event\<close>), \<open>invoked\<close> lists the contexts of
  the calls of \<^verbatim>\<open>safe_execute\<close>.
\<close>

record tstate =
  queue :: "(json \<times> pyval) list"
  results :: "ActionResult list"
  visited :: "json list"
  invoked :: "action_context list"
  pipe :: Pipeline
  store :: heap
  tick :: nat
  raised :: "exn option"

text \<open>The policy key \<^verbatim>\<open>f"{pipeline.id}_{current_node_id}"\<close>.\<close>

definition policy_key :: "pylib \<Rightarrow> int \<Rightarrow> json \<Rightarrow> string" where
  "policy_key L pid nid = py_str_cfg L (JInt pid) @ ''_'' @ py_str_cfg L nid"

text \<open>The node's policy object is updated in place.\<close>

definition set_node_policy :: "json \<Rightarrow> policy \<Rightarrow> Pipeline \<Rightarrow> Pipeline" where
  "set_node_policy nid pol p =
     p\<lparr>nodes := map (\<lambda>kn. if fst kn = nid then (fst kn, (snd kn)\<lparr>node_policy := Some pol\<rparr>) else kn)
                    (nodes p)\<rparr>"

text \<open>
  The action branch once the node has an action: the context is built, the policy (if
  any) is asked, and on admission the action runs, its result is collected and the
  policy is told. The first component of the result is the payload to pass on, or
  \<^verbatim>\<open>None\<close> after \<^verbatim>\<open>continue\<close> or an exception.
\<close>

definition run_action :: "env \<Rightarrow> PipelineNode \<Rightarrow> action \<Rightarrow> pyval \<Rightarrow> tstate \<Rightarrow> pyval option \<times> tstate" where
  "run_action E node a event_data s =
     (case data_get (node_data node) ''params'' (JDict []) of
        Inl e \<Rightarrow> (None, s\<lparr>raised := Some e\<rparr>)
      | Inr params \<Rightarrow>
          (let ctx = \<lparr>ctx_event = event_data, ctx_pipeline_id = pipeline_id (pipe s),
                      ctx_node_id = node_id node, ctx_params = params,
                      ctx_execute_callback = None\<rparr>;
               key = policy_key (lib E) (pipeline_id (pipe s)) (node_id node)
           in case node_policy node of
                None \<Rightarrow>
                  (Some event_data,
                   s\<lparr>results := results s @ [safe_execute E a ctx (store s)],
                     invoked := invoked s @ [ctx]\<rparr>)
              | Some pol \<Rightarrow>
                  (let (ok, pol1) = policy_should_execute (lib E) (local_clock E (tick s))
                                      (utc_clock E (tick s)) (store s) key ctx pol;
                       s1 = s\<lparr>pipe := set_node_policy (node_id node) pol1 (pipe s), tick := tick s + 1\<rparr>
                   in if \<not> ok then (None, s1)
                      else (Some event_data,
                            s1\<lparr>results := results s1 @ [safe_execute E a ctx (store s1)],
                               invoked := invoked s1 @ [ctx],
                               pipe := set_node_policy (node_id node)
                                         (policy_on_execute (utc_clock E (tick s1)) key pol1) (pipe s1),
                               tick := tick s1 + 1\<rparr>))))"

text \<open>
  The processing of a node by its type. A node whose component is missing passes the
  payload on, and so does a node of an unknown type.
\<close>

definition process_node :: "env \<Rightarrow> PipelineNode \<Rightarrow> pyval \<Rightarrow> tstate \<Rightarrow> pyval option \<times> tstate" where
  "process_node E node event_data s =
     (if node_type node = JStr ''source'' then (Some event_data, s)
      else if node_type node = JStr ''filter''
      then (case node_filter node of
              None \<Rightarrow> (Some event_data, s)
            | Some f \<Rightarrow>
                (case filter_evaluate (lib E) (local_clock E (tick s)) (store s) f event_data of
                   Inl e \<Rightarrow> (None, s\<lparr>raised := Some e, tick := tick s + 1\<rparr>)
                 | Inr b \<Rightarrow> (if b then Some event_data else None, s\<lparr>tick := tick s + 1\<rparr>)))
      else if node_type node = JStr ''transformer''
      then (case node_transformer node of
              None \<Rightarrow> (Some event_data, s)
            | Some t \<Rightarrow>
                (let (v, h) = transform (lib E) (store s) t event_data
                 in (Some v, s\<lparr>store := h\<rparr>)))
      else if node_type node = JStr ''action''
      then (case node_action node of
              None \<Rightarrow> (Some event_data, s)
            | Some a \<Rightarrow> run_action E node a event_data s)
      else (Some event_data, s))"

text \<open>
  The loop that appends the connected nodes to the queue, each with
  \<^verbatim>\<open>event_data.copy()\<close>: a new dictionary with the same items.
\<close>

fun enqueue :: "PipelineNode list \<Rightarrow> pyval \<Rightarrow> tstate \<Rightarrow> tstate" where
  "enqueue [] event_data s = s"
| "enqueue (n # ns) event_data s =
     (case copy_obj (store s) event_data of
        Inl e \<Rightarrow> s\<lparr>raised := Some e\<rparr>
      | Inr (v, h) \<Rightarrow> enqueue ns event_data (s\<lparr>queue := queue s @ [(node_id n, v)], store := h\<rparr>))"

text \<open>
  One turn of the \<^verbatim>\<open>while queue\<close> loop, for a queue that is not empty: the head is
  taken off; an id that names no node is skipped; otherwise the node is announced and
  processed and, unless the path ended there, its connected nodes are appended.
\<close>

definition step :: "env \<Rightarrow> tstate \<Rightarrow> tstate" where
  "step E s =
     (case queue s of
        [] \<Rightarrow> s
      | (current_node_id, event_data) # rest \<Rightarrow>
          (let s0 = s\<lparr>queue := rest\<rparr>
           in case map_of (nodes (pipe s0)) current_node_id of
                None \<Rightarrow> s0
              | Some node \<Rightarrow>
                  (case process_node E node event_data (s0\<lparr>visited := visited s0 @ [current_node_id]\<rparr>) of
                     (None, s1) \<Rightarrow> s1
                   | (Some v, s1) \<Rightarrow>
                       (case get_connected_nodes (pipe s1) current_node_id of
                          Inl e \<Rightarrow> s1\<lparr>raised := Some e\<rparr>
                        | Inr connected_nodes \<Rightarrow> enqueue connected_nodes v s1))))"




text \<open>
  The start of \<^verbatim>\<open>_process_pipeline\<close>: the event is serialized into a new dictionary,
  which is queued for the start node.
\<close>

definition start_state :: "env \<Rightarrow> Pipeline \<Rightarrow> json \<Rightarrow> SignalEvent \<Rightarrow> heap \<Rightarrow> nat \<Rightarrow> tstate" where
  "start_state E p start_node_id event h n =
     (let (a, h') = to_dict (lib E) event h
      in \<lparr>queue = [(start_node_id, PRef a)], results = [], visited = [], invoked = [],
          pipe = p, store = h', tick = n, raised = None\<rparr>)"


subsection \<open>Example surroundings\<close>

text \<open>
  Surroundings for running the model on examples: the small library, a clock that
  advances by one second per reading, and actions that always succeed.
\<close>

definition sample_env :: env where
  "sample_env =
     \<lparr>lib = sample_lib,
      utc_clock = (\<lambda>n. real n),
      local_clock = (\<lambda>n. (0, 0)),
      safe_execute = (\<lambda>a ctx h. \<lparr>ar_status = ''success'', ar_message = action_type a\<rparr>)\<rparr>"

text \<open>An event of the cpu source whose data dictionary is the object at address 0.\<close>

definition sample_event :: SignalEvent where
  "sample_event =
     \<lparr>se_id = ''e1'', se_source_type = ''cpu'', se_source_name = ''cpu_ram_monitor'',
      se_event_type = VALUE_CHANGED, se_timestamp = 0, se_data = PRef 0, se_metadata = PRef 1\<rparr>"

definition sample_heap :: heap where
  "sample_heap = [ODict [(''cpu_percent'', PInt 91)], ODict []]"



definition debounce_action_node :: PipelineNode where
  "debounce_action_node =
     \<lparr>node_id = JStr ''act'', node_type = JStr ''action'',
      node_data = JDict [(''action_type'', JStr ''notification''),
                         (''policy'', JDict [(''type'', JStr ''debounce''),
                                             (''params'', JDict [(''delay_seconds'', JFloat (1 / 2))])])],
      node_filter = None, node_transformer = None,
      node_action = Some \<lparr>action_type = ''notification'', action_params = JDict []\<rparr>,
      node_policy = Some (DebouncePolicy \<lparr>delay_seconds = 1 / 2, pending_tasks = Map.empty,
                                         execution_callbacks = Map.empty\<rparr>)\<rparr>"

definition debounce_pipeline :: Pipeline where
  "debounce_pipeline =
     \<lparr>pipeline_id = 7, pipeline_name = ''debounced'', is_active = True,
      nodes = [(JStr ''src'',
                \<lparr>node_id = JStr ''src'', node_type = JStr ''source'',
                 node_data = JDict [(''source_type'', JStr ''cpu'')],
                 node_filter = None, node_transformer = None, node_action = None, node_policy = None\<rparr>),
               (JStr ''act'', debounce_action_node)],
      edges = [\<lparr>edge_id = JStr ''e1'', edge_source = JStr ''src'', edge_target = JStr ''act''\<rparr>],
      adjacency = [(JStr ''src'', [JStr ''act''])]\<rparr>"

text \<open>
  A pipeline in which two branches meet again: the source feeds two math transformers
  (one adds 1, the other adds 2, both store the result under \<^verbatim>\<open>x\<close>), and both feed
  the same notification action.
\<close>

definition diamond_node_configs :: json where
  "diamond_node_configs =
     JList [JDict [(''id'', JStr ''src''), (''type'', JStr ''source''),
                   (''data'', JDict [(''source_type'', JStr ''cpu'')])],
            JDict [(''id'', JStr ''t1''), (''type'', JStr ''transformer''),
                   (''data'', JDict [(''transformer'',
                      JDict [(''type'', JStr ''math''),
                             (''params'', JDict [(''field'', JStr ''data.cpu_percent''),
                                                 (''operation'', JStr ''add''), (''operand'', JInt 1),
                                                 (''output_key'', JStr ''x'')])])])],
            JDict [(''id'', JStr ''t2''), (''type'', JStr ''transformer''),
                   (''data'', JDict [(''transformer'',
                      JDict [(''type'', JStr ''math''),
                             (''params'', JDict [(''field'', JStr ''data.cpu_percent''),
                                                 (''operation'', JStr ''add''), (''operand'', JInt 2),
                                                 (''output_key'', JStr ''x'')])])])],
            JDict [(''id'', JStr ''act''), (''type'', JStr ''action''),
                   (''data'', JDict [(''action_type'', JStr ''notification'')])]]"

definition diamond_edge_configs :: json where
  "diamond_edge_configs =
     JList [JDict [(''id'', JStr ''e1''), (''source'', JStr ''src''), (''target'', JStr ''t1'')],
            JDict [(''id'', JStr ''e2''), (''source'', JStr ''src''), (''target'', JStr ''t2'')],
            JDict [(''id'', JStr ''e3''), (''source'', JStr ''t1''), (''target'', JStr ''act'')],
            JDict [(''id'', JStr ''e4''), (''source'', JStr ''t2''), (''target'', JStr ''act'')]]"

definition diamond_pipeline :: Pipeline where
  "diamond_pipeline =
     \<lparr>pipeline_id = 3, pipeline_name = ''diamond'', is_active = True,
      nodes = [(JStr ''src'',
                \<lparr>node_id = JStr ''src'', node_type = JStr ''source'',
                 node_data = JDict [(''source_type'', JStr ''cpu'')],
                 node_filter = None, node_transformer = None, node_action = None, node_policy = None\<rparr>),
               (JStr ''t1'',
                \<lparr>node_id = JStr ''t1'', node_type = JStr ''transformer'',
                 node_data = JDict [(''transformer'',
                      JDict [(''type'', JStr ''math''),
                             (''params'', JDict [(''field'', JStr ''data.cpu_percent''),
                                                 (''operation'', JStr ''add''), (''operand'', JInt 1),
                                                 (''output_key'', JStr ''x'')])])],
                 node_filter = None,
                 node_transformer = Some (MathTransformer
                    \<lparr>m_field = JStr ''data.cpu_percent'', m_operation = JStr ''add'',
                     m_operand = JInt 1, m_output_key = JStr ''x''\<rparr>),
                 node_action = None, node_policy = None\<rparr>),
               (JStr ''t2'',
                \<lparr>node_id = JStr ''t2'', node_type = JStr ''transformer'',
                 node_data = JDict [(''transformer'',
                      JDict [(''type'', JStr ''math''),
                             (''params'', JDict [(''field'', JStr ''data.cpu_percent''),
                                                 (''operation'', JStr ''add''), (''operand'', JInt 2),
                                                 (''output_key'', JStr ''x'')])])],
                 node_filter = None,
                 node_transformer = Some (MathTransformer
                    \<lparr>m_field = JStr ''data.cpu_percent'', m_operation = JStr ''add'',
                     m_operand = JInt 2, m_output_key = JStr ''x''\<rparr>),
                 node_action = None, node_policy = None\<rparr>),
               (JStr ''act'',
                \<lparr>node_id = JStr ''act'', node_type = JStr ''action'',
                 node_data = JDict [(''action_type'', JStr ''notification'')],
                 node_filter = None, node_transformer = None,
                 node_action = Some \<lparr>action_type = ''notification'', action_params = JDict []\<rparr>,
                 node_policy = Some NoPolicy\<rparr>)],
      edges = [\<lparr>edge_id = JStr ''e1'', edge_source = JStr ''src'', edge_target = JStr ''t1''\<rparr>,
               \<lparr>edge_id = JStr ''e2'', edge_source = JStr ''src'', edge_target = JStr ''t2''\<rparr>,
               \<lparr>edge_id = JStr ''e3'', edge_source = JStr ''t1'', edge_target = JStr ''act''\<rparr>,
               \<lparr>edge_id = JStr ''e4'', edge_source = JStr ''t2'', edge_target = JStr ''act''\<rparr>],
      adjacency = [(JStr ''src'', [JStr ''t1'', JStr ''t2'']), (JStr ''t1'', [JStr ''act'']),
                   (JStr ''t2'', [JStr ''act''])]\<rparr>"


subsection \<open>Shapes of pipelines and traversal invariants\<close>




text \<open>Every node is stored under its own id.\<close>

definition keyed :: "(json \<times> PipelineNode) list \<Rightarrow> bool" where
  "keyed ns = list_all (\<lambda>kn. node_id (snd kn) = fst kn) ns"





section \<open>Properties of the threshold machine\<close>

text \<open>
  C8. For a tracked metric with band (low, high), a sample v yields the zone
  low if v \<le> low, high if v \<ge> high, normal otherwise; a crossing is reported exactly when
  that zone differs from the stored state, the stored state afterwards is that zone, and
  nothing else in the mixin changes.
\<close>

theorem check_threshold_edge_triggered:
  assumes "thresholds m name = Some (low, high)"
  shows "fst (check_threshold name v m) =
           (if new_state low high v \<noteq> current_state m name then Some (new_state low high v) else None)
       \<and> current_state (snd (check_threshold name v m)) name = new_state low high v
       \<and> thresholds (snd (check_threshold name v m)) = thresholds m
       \<and> (\<forall>other. other \<noteq> name \<longrightarrow>
            threshold_states (snd (check_threshold name v m)) other = threshold_states m other)
       \<and> new_state low high v = (if v \<le> low then ''low'' else if v \<ge> high then ''high'' else ''normal'')"
  using assms by (simp add: check_threshold_def Let_def current_state_def new_state_def)

theorem check_threshold_edge_triggered_witness:
  "fst (check_threshold ''cpu'' 80 (set_threshold ''cpu'' 20 80 threshold_mixin_init)) = Some ''high''
   \<and> current_state (snd (check_threshold ''cpu'' 80 (set_threshold ''cpu'' 20 80 threshold_mixin_init))) ''cpu'' = ''high''"
  using check_threshold_edge_triggered
    [of "set_threshold ''cpu'' 20 80 threshold_mixin_init" "''cpu''" 20 80 80]
  by (simp add: set_threshold_def threshold_mixin_init_def current_state_def new_state_def)

section \<open>Properties of the cpu/ram source\<close>



section \<open>Properties of the rate limit policy\<close>

lemma rl_params_should [simp]:
  "max_executions (snd (rl_should_execute a k p)) = max_executions p"
  "window_seconds (snd (rl_should_execute a k p)) = window_seconds p"
  by (simp_all add: rl_should_execute_def Let_def)

lemma rl_params_on [simp]:
  "max_executions (rl_on_execute r k p) = max_executions p"
  "window_seconds (rl_on_execute r k p) = window_seconds p"
  by (simp_all add: rl_on_execute_def)




lemma rl_admitted_Nil [simp]: "rl_admitted [] k p = []"
  by (simp add: rl_admitted_def)



lemma rl_run_snd_Cons:
  "snd (rl_run ((a, r) # rest) k p) =
     (if fst (rl_should_execute a k p)
      then snd (rl_run rest k (rl_on_execute r k (snd (rl_should_execute a k p))))
      else snd (rl_run rest k (snd (rl_should_execute a k p))))"
  by (simp add: Let_def split: prod.splits)











lemma rl_run_params [simp]:
  "max_executions (snd (rl_run atts k p)) = max_executions p"
  "window_seconds (snd (rl_run atts k p)) = window_seconds p"
  by (induction atts arbitrary: p) (auto simp: rl_run_snd_Cons simp del: rl_run.simps(2))



section \<open>Properties of the WebSocket hub\<close>

text \<open>
  C6 (as amended). An inbound message whose type is a string with no registered handler
  is only logged: the receive loop goes on, and the connection map (every outbox
  included) and the channel table are exactly as before, so the client stays registered
  with its subscriptions and receives no frame, in particular no error frame.
\<close>

theorem unknown_type_ignored:
  assumes "jget data ''type'' (JStr []) = JStr t" and "hs t = None"
  shows "handle_inbound hs client_id data m = (True, m)"
  using assms by (simp add: handle_inbound_def process_message_def lookup_handler_def)

theorem unknown_type_ignored_witness:
  "jget [(''type'', JStr ''bogus'')] ''type'' (JStr []) = JStr ''bogus''
   \<and> setup_handlers ''bogus'' = None
   \<and> handle_inbound setup_handlers ''c1'' [(''type'', JStr ''bogus'')] (connect ''c1'' connection_manager_init)
       = (True, connect ''c1'' connection_manager_init)"
proof -
  have h1: "jget [(''type'', JStr ''bogus'')] ''type'' (JStr []) = JStr ''bogus''"
    by (simp add: jget_def)
  have h2: "setup_handlers ''bogus'' = None"
    by (simp add: setup_handlers_def)
  from unknown_type_ignored
         [of "[(''type'', JStr ''bogus'')]" "''bogus''" setup_handlers "''c1''"
             "connect ''c1'' connection_manager_init", OF h1 h2] h1 h2
  show ?thesis by blast
qed

text \<open>
  C6 as stated fails: a connected client that sends a message of the unknown type
  "bogus" has received no error frame afterwards; its outbox is still empty.
\<close>

theorem unknown_type_no_error_frame_counterexample:
  "\<not> list_ex is_error_frame (frames_of
          (snd (handle_inbound setup_handlers ''c1'' [(''type'', JStr ''bogus'')]
                  (connect ''c1'' connection_manager_init))) ''c1'')"
  by (simp add: handle_inbound_def process_message_def lookup_handler_def jget_def
      setup_handlers_def connect_def connection_manager_init_def frames_of_def)

section \<open>Properties of the boolean filter\<close>

lemma try_except_returns: "\<exists>x. try_except body dflt = Inr x"
  by (cases body) (simp_all add: try_except_def)

lemma try_except_raise: "body = Inl e \<Longrightarrow> try_except body dflt = Inr dflt"
  by (simp add: try_except_def)

lemma lookup_operator_name:
  "lookup_operator operator = Inr (Some (name, op_func)) \<Longrightarrow> operator = JStr name"
  by (cases operator) (auto simp: lookup_operator_def)

text \<open>
  C10. \<^verbatim>\<open>BooleanFilter.evaluate\<close> always returns a boolean and never raises, whatever
  the payload, the configuration and the behaviour of the library functions. For an
  operator other than the four unary ones it returns false when the comparand is
  \<^verbatim>\<open>None\<close> or when the field resolves to \<^verbatim>\<open>None\<close>, and an exception raised by the
  operator function (or anywhere in the body) gives false.
\<close>

theorem BooleanFilter_evaluate_total:
  "(\<exists>b. BooleanFilter_evaluate L h f event_data = Inr b)
   \<and> (bf_operator f \<notin> JStr ` set unary_ops \<and>
        (bf_value f = JNull \<or> get_nested_value h event_data (bf_field f) = Inr PNone)
        \<longrightarrow> BooleanFilter_evaluate L h f event_data = Inr False)
   \<and> (\<forall>v name op_func e.
        get_nested_value h event_data (bf_field f) = Inr v
        \<and> lookup_operator (bf_operator f) = Inr (Some (name, op_func))
        \<and> op_func L h v (bf_value f) = Inl e
        \<longrightarrow> BooleanFilter_evaluate L h f event_data = Inr False)
   \<and> (\<forall>e. boolean_filter_body L h f event_data = Inl e
        \<longrightarrow> BooleanFilter_evaluate L h f event_data = Inr False)"
proof (intro conjI allI impI)
  show "\<exists>b. BooleanFilter_evaluate L h f event_data = Inr b"
    unfolding BooleanFilter_evaluate_def by (rule try_except_returns)
next
  assume a: "bf_operator f \<notin> JStr ` set unary_ops \<and>
     (bf_value f = JNull \<or> get_nested_value h event_data (bf_field f) = Inr PNone)"
  show "BooleanFilter_evaluate L h f event_data = Inr False"
  proof (cases "get_nested_value h event_data (bf_field f)")
    case (Inl e)
    then show ?thesis
      by (simp add: BooleanFilter_evaluate_def boolean_filter_body_def ebind_def try_except_def)
  next
    case (Inr v)
    show ?thesis
    proof (cases "lookup_operator (bf_operator f)")
      case (Inl e)
      then show ?thesis using Inr
        by (simp add: BooleanFilter_evaluate_def boolean_filter_body_def ebind_def try_except_def)
    next
      case found: (Inr r)
      show ?thesis
      proof (cases r)
        case None
        then show ?thesis using Inr found
          by (simp add: BooleanFilter_evaluate_def boolean_filter_body_def ebind_def try_except_def)
      next
        case (Some p)
        obtain name op_func where p: "p = (name, op_func)" by (cases p)
        have "bf_operator f = JStr name"
          using found Some p by (simp add: lookup_operator_name)
        then have "name \<notin> set unary_ops" using a by auto
        then show ?thesis using Inr found Some p a
          by (auto simp add: BooleanFilter_evaluate_def boolean_filter_body_def ebind_def try_except_def)
      qed
    qed
  qed
next
  fix v name op_func e
  assume "get_nested_value h event_data (bf_field f) = Inr v
        \<and> lookup_operator (bf_operator f) = Inr (Some (name, op_func))
        \<and> op_func L h v (bf_value f) = Inl e"
  then show "BooleanFilter_evaluate L h f event_data = Inr False"
    by (simp add: BooleanFilter_evaluate_def boolean_filter_body_def ebind_def try_except_def)
next
  fix e
  assume "boolean_filter_body L h f event_data = Inl e"
  then show "BooleanFilter_evaluate L h f event_data = Inr False"
    by (simp add: BooleanFilter_evaluate_def try_except_def)
qed

theorem BooleanFilter_evaluate_total_witness:
  "bf_operator \<lparr>bf_field = JStr ''data.cpu_percent'', bf_operator = JStr ''>'', bf_value = JInt 80\<rparr>
      \<notin> JStr ` set unary_ops
   \<and> get_nested_value [ODict [(''source_type'', PStr ''cpu''), (''data'', PRef 1)], ODict [(''ram_percent'', PInt 50)]]
        (PRef 0) (JStr ''data.cpu_percent'') = Inr PNone
   \<and> BooleanFilter_evaluate sample_lib
        [ODict [(''source_type'', PStr ''cpu''), (''data'', PRef 1)], ODict [(''ram_percent'', PInt 50)]]
        \<lparr>bf_field = JStr ''data.cpu_percent'', bf_operator = JStr ''>'', bf_value = JInt 80\<rparr>
        (PRef 0) = Inr False"
proof -
  let ?f = "\<lparr>bf_field = JStr ''data.cpu_percent'', bf_operator = JStr ''>'', bf_value = JInt 80\<rparr>"
  let ?h = "[ODict [(''source_type'', PStr ''cpu''), (''data'', PRef 1)], ODict [(''ram_percent'', PInt 50)]]"
  have h1: "bf_operator ?f \<notin> JStr ` set unary_ops"
    by (auto simp: unary_ops_def)
  have h2: "get_nested_value ?h (PRef 0) (JStr ''data.cpu_percent'') = Inr PNone"
    by (simp add: get_nested_value_def resolve_path_def ebind_def contains_data_def as_dict_def
        heap_get_def dict_get_def)
  from BooleanFilter_evaluate_total [of sample_lib ?h ?f "PRef 0"] h1 h2
  show ?thesis by simp
qed

section \<open>Properties of the signal event\<close>

lemma EventType_of_value: "EventType_of (PStr (EventType_value t)) = Inr t"
  by (cases t) (simp_all add: EventType_of_def)

text \<open>
  C9. Serializing a signal event with \<^verbatim>\<open>to_dict\<close> and parsing the dictionary back
  with \<^verbatim>\<open>from_dict\<close> yields the original event, field by field, and leaves the store
  as it was; the timestamp goes through \<^verbatim>\<open>isoformat\<close> and \<^verbatim>\<open>fromisoformat\<close>, whose
  round trip is the library's contract.
\<close>

theorem SignalEvent_round_trip:
  assumes "fromisoformat L (isoformat L (se_timestamp e)) = Inr (se_timestamp e)"
  shows "from_dict L fresh_id now h (to_dict_items L e) = Inr (e, h)
       \<and> as_dict (snd (to_dict L e h)) (PRef (fst (to_dict L e h))) = Some (to_dict_items L e)"
  using assms
  by (simp add: from_dict_def to_dict_items_def ebind_def str_field_def dict_field_def
      EventType_of_value to_dict_def alloc_def as_dict_def heap_get_def)

theorem SignalEvent_round_trip_witness:
  "fromisoformat sample_lib (isoformat sample_lib 0) = Inr 0
   \<and> from_dict sample_lib ''fresh'' 7 [ODict [(''cpu_percent'', PInt 91)], ODict []]
       (to_dict_items sample_lib
          \<lparr>se_id = ''e1'', se_source_type = ''cpu'', se_source_name = ''cpu_ram_monitor'',
           se_event_type = THRESHOLD_CROSSED, se_timestamp = 0, se_data = PRef 0, se_metadata = PRef 1\<rparr>)
     = Inr (\<lparr>se_id = ''e1'', se_source_type = ''cpu'', se_source_name = ''cpu_ram_monitor'',
             se_event_type = THRESHOLD_CROSSED, se_timestamp = 0, se_data = PRef 0, se_metadata = PRef 1\<rparr>,
            [ODict [(''cpu_percent'', PInt 91)], ODict []])"
proof -
  have h1: "fromisoformat sample_lib (isoformat sample_lib 0) = Inr 0"
    by (simp add: sample_lib_def)
  let ?e = "\<lparr>se_id = ''e1'', se_source_type = ''cpu'', se_source_name = ''cpu_ram_monitor'',
           se_event_type = THRESHOLD_CROSSED, se_timestamp = 0, se_data = PRef 0, se_metadata = PRef 1\<rparr>"
  have h1': "fromisoformat sample_lib (isoformat sample_lib (se_timestamp ?e)) = Inr (se_timestamp ?e)"
    using h1 by simp
  from SignalEvent_round_trip [OF h1', of "''fresh''" 7 "[ODict [(''cpu_percent'', PInt 91)], ODict []]"] h1
  show ?thesis by simp
qed

section \<open>Properties of loading\<close>

lemma node_data_init [simp]:
  "node_data (PipelineNode_init nid ntype d) = jget d ''data'' (JDict [])"
  by (simp add: PipelineNode_init_def Let_def split: prod.splits)

lemma dict_set_snd: "snd ` set (dict_set acc k v) \<subseteq> insert v (snd ` set acc)"
  by (induction acc k v rule: dict_set.induct) auto











lemma dict_set_keys: "fst ` set (dict_set acc k v) = insert k (fst ` set acc)"
  by (induction acc k v rule: dict_set.induct) auto

lemma build_nodes_keys:
  "build_nodes cs acc = Inr ns \<Longrightarrow> fst ` set acc \<subseteq> fst ` set ns"
proof (induction cs arbitrary: acc)
  case Nil
  then show ?case by simp
next
  case (Cons c cs)
  from Cons.prems(1) obtain d where c: "c = JDict d"
    by (cases c) simp_all
  from Cons.prems(1) c obtain nid where i: "map_of d ''id'' = Some nid"
    by (cases "map_of d ''id''") simp_all
  from Cons.prems(1) c i have h: "hashable nid"
    by (cases "hashable nid") simp_all
  obtain v where step: "build_nodes cs (dict_set acc nid v) = Inr ns"
    using Cons.prems(1) c i h by simp
  from Cons.IH [OF step] show ?case
    by (simp add: dict_set_keys)
qed






lemma load_pipeline_raises:
  "Pipeline_init pid name ncs ecs = Inl e \<Longrightarrow>
   pipelines (snd (load_pipeline ex pid name ncs ecs)) pid = pipelines ex pid"
  by (simp add: load_pipeline_def)







section \<open>Properties of the debounce policy in the executor\<close>

lemma debounce_without_callback:
  "ctx_execute_callback ctx = None \<Longrightarrow>
   fst (debounce_should_execute action_id ctx p) = False
   \<and> dom (pending_tasks (snd (debounce_should_execute action_id ctx p))) = dom (pending_tasks p)
   \<and> execution_callbacks (snd (debounce_should_execute action_id ctx p)) = execution_callbacks p"
  by (cases "pending_tasks p action_id") (auto simp: debounce_should_execute_def Let_def)

text \<open>
  C3, what the code does. An action node governed by a debounce policy never runs its
  action: the context the executor builds has no \<^verbatim>\<open>_execute_callback\<close>, so
  \<^verbatim>\<open>should_execute\<close> answers \<^verbatim>\<open>False\<close> and schedules nothing. Processing such a node
  ends the path, adds no result and calls no action, and without a callback the policy
  gains no pending task. This holds for every event, so a burst leads to no invocation
  at all, where the claim asks for exactly one.
\<close>

theorem debounce_action_never_runs:
  assumes "node_type node = JStr ''action''"
    and "node_action node = Some a"
    and "node_policy node = Some (DebouncePolicy p)"
  shows "fst (process_node E node event_data s) = None
       \<and> results (snd (process_node E node event_data s)) = results s
       \<and> invoked (snd (process_node E node event_data s)) = invoked s
       \<and> (\<forall>action_id ctx. ctx_execute_callback ctx = None \<longrightarrow>
             fst (debounce_should_execute action_id ctx p) = False
             \<and> dom (pending_tasks (snd (debounce_should_execute action_id ctx p))) = dom (pending_tasks p))"
proof -
  have "fst (run_action E node a event_data s) = None
       \<and> results (snd (run_action E node a event_data s)) = results s
       \<and> invoked (snd (run_action E node a event_data s)) = invoked s"
  proof (cases "data_get (node_data node) ''params'' (JDict [])")
    case (Inl e)
    then show ?thesis by (simp add: run_action_def)
  next
    case (Inr params)
    then show ?thesis using assms(3)
      by (simp add: run_action_def Let_def policy_should_execute_def case_prod_beta
          debounce_without_callback)
  qed
  then show ?thesis using assms(1,2) debounce_without_callback
    by (simp add: process_node_def)
qed


theorem debounce_action_never_runs_witness:
  "node_type debounce_action_node = JStr ''action''
   \<and> node_action debounce_action_node = Some \<lparr>action_type = ''notification'', action_params = JDict []\<rparr>
   \<and> node_policy debounce_action_node
       = Some (DebouncePolicy \<lparr>delay_seconds = 1 / 2, pending_tasks = Map.empty,
                                execution_callbacks = Map.empty\<rparr>)
   \<and> fst (process_node sample_env debounce_action_node (PRef 2)
            (start_state sample_env debounce_pipeline (JStr ''src'') sample_event sample_heap 0)) = None
   \<and> results (snd (process_node sample_env debounce_action_node (PRef 2)
            (start_state sample_env debounce_pipeline (JStr ''src'') sample_event sample_heap 0))) = []"
proof -
  have h1: "node_type debounce_action_node = JStr ''action''"
    by (simp add: debounce_action_node_def)
  have h2: "node_action debounce_action_node
              = Some \<lparr>action_type = ''notification'', action_params = JDict []\<rparr>"
    by (simp add: debounce_action_node_def)
  have h3: "node_policy debounce_action_node
              = Some (DebouncePolicy \<lparr>delay_seconds = 1 / 2, pending_tasks = Map.empty,
                                       execution_callbacks = Map.empty\<rparr>)"
    by (simp add: debounce_action_node_def)
  have r: "results (start_state sample_env debounce_pipeline (JStr ''src'') sample_event sample_heap 0) = []"
    by (simp add: start_state_def case_prod_beta)
  from debounce_action_never_runs [OF h1 h2 h3, of sample_env "PRef 2"
      "start_state sample_env debounce_pipeline (JStr ''src'') sample_event sample_heap 0"] h1 h2 h3 r
  show ?thesis by simp
qed

section \<open>Properties of the traversal\<close>

lemma set_node_policy_shape [simp]:
  "adjacency (set_node_policy nid pol p) = adjacency p"
  "map fst (nodes (set_node_policy nid pol p)) = map fst (nodes p)"
  by (simp_all add: set_node_policy_def comp_def)

lemma keyed_map_policy:
  "keyed (map (\<lambda>kn. if fst kn = nid then (fst kn, (snd kn)\<lparr>node_policy := Some pol\<rparr>) else kn) ns)
     = keyed ns"
  by (induction ns) (auto simp: keyed_def)

lemma set_node_policy_keyed [simp]:
  "keyed (nodes (set_node_policy nid pol p)) = keyed (nodes p)"
  by (simp add: set_node_policy_def keyed_map_policy)


















lemma diamond_pipeline_loaded:
  "Pipeline_init 3 ''diamond'' diamond_node_configs diamond_edge_configs = Inr diamond_pipeline"
  by (simp add: Pipeline_init_def diamond_node_configs_def diamond_edge_configs_def
      diamond_pipeline_def iter_json_def ebind_def jget_def
      PipelineNode_init_def initialize_component_def data_get_def get_action_def ACTIONS_def
      ExecutionPolicy_from_config_def Transformer_from_config_def MathTransformer_init_def
      params_or_empty_def Let_def)







subsection \<open>What a branch can change\<close>






















end
